theory Spec2Isabelle
  imports Main "HOL-Library.Sublist"
begin

section \<open>Python values\<close>

text \<open>
  A Python \<^verbatim>\<open>float\<close>, an IEEE double: a finite one by its sign, its mantissa \<open>n\<close> and its
  exponent \<open>k\<close>, the number \<open>n * 2 ^ k\<close> with \<open>2 ^ 52 \<le> n < 2 ^ 53\<close> and
  \<open>- 1074 \<le> k \<le> 971\<close>, or \<open>n < 2 ^ 52\<close> and \<open>k = - 1074\<close>; an infinity by its sign; and
  \<^verbatim>\<open>nan\<close>.
\<close>

datatype pyfloat =
    Finite bool nat int
  | Infinite bool
  | NaN

text \<open>
  The values that \<^verbatim>\<open>json.loads\<close> produces and \<^verbatim>\<open>json.dumps\<close> consumes: \<^verbatim>\<open>None\<close>,
  \<^verbatim>\<open>bool\<close>, \<^verbatim>\<open>int\<close>, \<^verbatim>\<open>float\<close>, \<^verbatim>\<open>str\<close>, \<^verbatim>\<open>list\<close> and \<^verbatim>\<open>dict\<close> (insertion ordered,
  keys are strings). A \<^verbatim>\<open>dict\<close> is an association list read with \<open>map_of\<close>.

  A \<^verbatim>\<open>str\<close> is carried as the bytes of its UTF-8 encoding, so ASCII text is itself. A
  Python string may hold a lone surrogate (\<^verbatim>\<open>json.loads\<close> gives one for the escape
  \<^verbatim>\<open>\ud800\<close>), which UTF-8 does not encode; it is carried as the three bytes that the
  encoding scheme would give it, \<open>0xED\<close> followed by a byte from \<open>0xA0\<close> to \<open>0xBF\<close> and one
  more.
\<close>

datatype json =
    JNull
  | JBool bool
  | JInt int
  | JFloat pyfloat
  | JStr string
  | JArr "json list"
  | JObj "(string \<times> json) list"

text \<open>
  Instances of \<^verbatim>\<open>Exception\<close>. \<open>HTTPException\<close> is FastAPI's, with its status code and
  detail; \<open>TypeError\<close>, \<open>AttributeError\<close>, \<open>KeyError\<close>, \<open>ValueError\<close> and
  \<open>UnicodeEncodeError\<close> are raised by the interpreter and the library and carry their
  message (\<open>KeyError\<close> its key); \<open>Error\<close> is any other exception, with the text
  \<^verbatim>\<open>str(e)\<close> gives. An exception that is no instance of \<^verbatim>\<open>Exception\<close> (the cancellation
  of a task, the close of a generator) is no value of this type.
\<close>

datatype exn =
    HTTPException nat string
  | TypeError string
  | AttributeError string
  | KeyError string
  | ValueError string
  | UnicodeEncodeError string
  | Error string

subsection \<open>Formatting: \<^verbatim>\<open>str\<close> and \<^verbatim>\<open>repr\<close>\<close>

fun str_nat :: "nat \<Rightarrow> string" where
  "str_nat n =
     (if n < 10 then [''0123456789'' ! n]
      else str_nat (n div 10) @ [''0123456789'' ! (n mod 10)])"

declare str_nat.simps [simp del]

definition str_int :: "int \<Rightarrow> string" where
  "str_int i = (if i < 0 then CHR ''-'' # str_nat (nat (- i)) else str_nat (nat i))"

subsection \<open>Floats: reading a decimal and \<^verbatim>\<open>repr\<close>\<close>

fun bitlen :: "nat \<Rightarrow> nat" where
  "bitlen n = (if n = 0 then 0 else Suc (bitlen (n div 2)))"

declare bitlen.simps [simp del]

text \<open>Comparison of two numbers given as \<open>m * 2 ^ a * 10 ^ b\<close>.\<close>

fun sci_le :: "nat \<times> int \<times> int \<Rightarrow> nat \<times> int \<times> int \<Rightarrow> bool" where
  "sci_le (m1, a1, b1) (m2, a2, b2) =
     (m1 * 2 ^ nat (a1 - a2) * 10 ^ nat (b1 - b2) \<le> m2 * 2 ^ nat (a2 - a1) * 10 ^ nat (b2 - b1))"

definition round_half_even :: "nat \<Rightarrow> nat \<Rightarrow> nat" where
  "round_half_even num den =
     (let q = num div den; r = num mod den
      in if den < 2 * r \<or> (2 * r = den \<and> odd q) then q + 1 else q)"

text \<open>\<^verbatim>\<open>float\<close> of the decimal \<open>m * 10 ^ e\<close> with its sign: the nearest double, ties to the
  even mantissa, and an infinity from halfway between the largest double and \<open>2 ^ 1024\<close>
  on.\<close>

definition to_double :: "bool \<Rightarrow> nat \<Rightarrow> int \<Rightarrow> pyfloat" where
  "to_double neg m e =
     (if m = 0 then Finite neg 0 (- 1074)
      else if sci_le (2 ^ 1024 - 2 ^ 970, 0, 0) (m, 0, e) then Infinite neg
      else
        let a = m * 10 ^ nat e; b = 10 ^ nat (- e);
            l0 = int (bitlen a) - int (bitlen b);
            l = (if sci_le (1, l0, 0) (m, 0, e) then l0 else l0 - 1);
            k = max (l - 52) (- 1074);
            n = round_half_even (a * 2 ^ nat (- k)) (b * 2 ^ nat k)
        in if n = 2 ^ 53 then Finite neg (2 ^ 52) (k + 1) else Finite neg n k)"

text \<open>The position of the decimal point of \<open>x = n * 2 ^ k\<close>: the least \<open>t\<close> with
  \<open>x < 10 ^ t\<close>, looked for upwards from an estimate below it.\<close>

fun decpt_from :: "nat \<Rightarrow> nat \<times> int \<Rightarrow> int \<Rightarrow> int" where
  "decpt_from 0 x t = t"
| "decpt_from (Suc fuel) x t =
     (if sci_le (1, 0, t) (fst x, snd x, 0) then decpt_from fuel x (t + 1) else t)"

definition decpt :: "nat \<Rightarrow> int \<Rightarrow> int" where
  "decpt n k =
     (let l = int (bitlen n) - 1 + k
      in decpt_from 4 (n, k) ((l * 30103) div 100000 - 1))"

text \<open>Whether the decimal \<open>d * 10 ^ ex\<close> reads back as the double \<open>n * 2 ^ k\<close>: it lies within
  half a step of it on either side (a quarter below a power of two), the ends included
  when \<open>n\<close> is even. The ends are counted in units of \<open>2 ^ (k - 2)\<close>.\<close>

definition in_interval :: "nat \<Rightarrow> int \<Rightarrow> nat \<Rightarrow> int \<Rightarrow> bool" where
  "in_interval n k d ex =
     (let lo = (if n = 2 ^ 52 \<and> - 1074 < k then 4 * n - 1 else 4 * n - 2);
          hi = 4 * n + 2
      in if even n
         then sci_le (lo, k - 2, 0) (d, 0, ex) \<and> sci_le (d, 0, ex) (hi, k - 2, 0)
         else \<not> sci_le (d, 0, ex) (lo, k - 2, 0) \<and> \<not> sci_le (hi, k - 2, 0) (d, 0, ex))"

text \<open>The floor of \<open>n * 2 ^ k / 10 ^ ex\<close>.\<close>

definition floor_div :: "nat \<Rightarrow> int \<Rightarrow> int \<Rightarrow> nat" where
  "floor_div n k ex = (n * 2 ^ nat k * 10 ^ nat (- ex)) div (2 ^ nat (- k) * 10 ^ nat ex)"

text \<open>Whether \<open>d1 * 10 ^ ex\<close> is nearer to \<open>n * 2 ^ k\<close> than \<open>(d1 + 1) * 10 ^ ex\<close>, or as near
  and even.\<close>

definition lower_closer :: "nat \<Rightarrow> int \<Rightarrow> nat \<Rightarrow> int \<Rightarrow> bool" where
  "lower_closer n k d1 ex =
     (if sci_le (2 * d1 + 1, 0, ex) (2 * n, k, 0)
      then sci_le (2 * n, k, 0) (2 * d1 + 1, 0, ex) \<and> even d1
      else True)"

text \<open>The shortest digit string that reads back as \<open>n * 2 ^ k\<close>, the nearest one among the
  shortest, with the position of its decimal point: \<open>p\<close> digits are tried for
  \<open>p = 1, 2, \<dots>\<close>; seventeen always do.\<close>

fun shortest :: "nat \<Rightarrow> nat \<Rightarrow> int \<Rightarrow> int \<Rightarrow> nat \<Rightarrow> nat \<times> int" where
  "shortest 0 n k t p = (floor_div n k (t - int p), t)"
| "shortest (Suc fuel) n k t p =
     (let ex = t - int p; d1 = floor_div n k ex; d2 = d1 + 1;
          ok1 = in_interval n k d1 ex; ok2 = in_interval n k d2 ex
      in if ok1 \<and> (\<not> ok2 \<or> lower_closer n k d1 ex) then (d1, t)
         else if ok2 then (if d2 = 10 ^ p then (1, t + 1) else (d2, t))
         else shortest fuel n k t (Suc p))"

definition float_digits :: "nat \<Rightarrow> int \<Rightarrow> string \<times> int" where
  "float_digits n k = (case shortest 17 n k (decpt n k) 1 of (d, t) \<Rightarrow> (str_nat d, t))"

text \<open>\<^verbatim>\<open>repr\<close> of a float: the shortest digits, with an exponent when the decimal point
  lies more than sixteen places right or more than three places left of them.\<close>

definition float_repr :: "pyfloat \<Rightarrow> string" where
  "float_repr f =
     (case f of
        NaN \<Rightarrow> ''nan''
      | Infinite neg \<Rightarrow> (if neg then ''-inf'' else ''inf'')
      | Finite neg n k \<Rightarrow>
          (if neg then ''-'' else []) @
          (if n = 0 then ''0.0''
           else
             (case float_digits n k of
                (ds, t) \<Rightarrow>
                  if t \<le> - 4 \<or> 16 < t then
                    (let ex = t - 1;
                         digits = str_nat (nat (abs ex))
                     in hd ds # (if tl ds = [] then [] else CHR ''.'' # tl ds)
                        @ ''e'' @ (if ex < 0 then ''-'' else ''+'')
                        @ (if length digits < 2 then CHR ''0'' # digits else digits))
                  else if t \<le> 0 then ''0.'' @ replicate (nat (- t)) CHR ''0'' @ ds
                  else if int (length ds) \<le> t
                    then ds @ replicate (nat t - length ds) CHR ''0'' @ ''.0''
                  else take (nat t) ds @ ''.'' @ drop (nat t) ds)))"

definition hex2 :: "nat \<Rightarrow> string" where
  "hex2 n = [''0123456789abcdef'' ! (n div 16), ''0123456789abcdef'' ! (n mod 16)]"

definition hex4 :: "nat \<Rightarrow> string" where
  "hex4 n = hex2 (n div 256) @ hex2 (n mod 256)"

text \<open>The bytes of a code point, and the code points of a string. A surrogate is written
  like any other code point of its range (three bytes, the first \<open>0xED\<close>), so that a
  string with a lone surrogate, which Python holds and UTF-8 refuses, is a value here.\<close>

definition utf8_encode :: "nat \<Rightarrow> string" where
  "utf8_encode n =
     (if n < 128 then [char_of n]
      else if n < 2048 then [char_of (192 + n div 64), char_of (128 + n mod 64)]
      else if n < 65536 then
        [char_of (224 + n div 4096), char_of (128 + (n div 64) mod 64), char_of (128 + n mod 64)]
      else
        [char_of (240 + n div 262144), char_of (128 + (n div 4096) mod 64),
         char_of (128 + (n div 64) mod 64), char_of (128 + n mod 64)])"

fun utf8_decode :: "string \<Rightarrow> nat list" where
  "utf8_decode [] = []"
| "utf8_decode [a] = [of_char a]"
| "utf8_decode (a # b # cs) =
     (let x = (of_char a :: nat); y = (of_char b :: nat) - 128
      in if x < 192 then x # utf8_decode (b # cs)
         else if x < 224 then ((x - 192) * 64 + y) # utf8_decode cs
         else if x < 240 then
           (case cs of
              c # r \<Rightarrow> (((x - 224) * 64 + y) * 64 + ((of_char c :: nat) - 128)) # utf8_decode r
            | [] \<Rightarrow> [x, of_char b])
         else
           (case cs of
              c # d # r \<Rightarrow>
                ((((x - 240) * 64 + y) * 64 + ((of_char c :: nat) - 128)) * 64
                   + ((of_char d :: nat) - 128)) # utf8_decode r
            | _ \<Rightarrow> x # utf8_decode (b # cs)))"

text \<open>\<^verbatim>\<open>repr\<close> of a \<^verbatim>\<open>str\<close>: single quotes, unless the string holds a single quote and no
  double quote; backslash, the chosen quote and the characters that are not printable are
  escaped. Of the characters above \<open>0x7F\<close> the escaped ones are here the controls of
  Latin-1, the no-break space, the soft hyphen and the surrogates; every other one is
  taken as printable, which the Unicode database decides in Python.\<close>

definition repr_char :: "char \<Rightarrow> char \<Rightarrow> string" where
  "repr_char q c =
     (if c = CHR 0x5C then [CHR 0x5C, CHR 0x5C]
      else if c = q then [CHR 0x5C, q]
      else if c = CHR 0x0A then [CHR 0x5C, CHR ''n'']
      else if c = CHR 0x0D then [CHR 0x5C, CHR ''r'']
      else if c = CHR 0x09 then [CHR 0x5C, CHR ''t'']
      else if (of_char c :: nat) < 32 \<or> (of_char c :: nat) = 127
        then CHR 0x5C # CHR ''x'' # hex2 (of_char c)
      else [c])"

definition repr_code_point :: "char \<Rightarrow> nat \<Rightarrow> string" where
  "repr_code_point q n =
     (if n < 128 then repr_char q (char_of n)
      else if n \<le> 160 \<or> n = 173 then CHR 0x5C # CHR ''x'' # hex2 n
      else if 55296 \<le> n \<and> n \<le> 57343 then CHR 0x5C # CHR ''u'' # hex4 n
      else utf8_encode n)"

definition repr_str :: "string \<Rightarrow> string" where
  "repr_str s =
     (let q = (if CHR 0x27 \<in> set s \<and> CHR 0x22 \<notin> set s then CHR 0x22 else CHR 0x27)
      in q # concat (map (repr_code_point q) (utf8_decode s)) @ [q])"

fun join :: "string \<Rightarrow> string list \<Rightarrow> string" where
  "join sep [] = []"
| "join sep [x] = x"
| "join sep (x # y # ys) = x @ sep @ join sep (y # ys)"

fun py_repr :: "json \<Rightarrow> string" where
  "py_repr JNull = ''None''"
| "py_repr (JBool b) = (if b then ''True'' else ''False'')"
| "py_repr (JInt i) = str_int i"
| "py_repr (JFloat f) = float_repr f"
| "py_repr (JStr s) = repr_str s"
| "py_repr (JArr xs) = ''['' @ join '', '' (map py_repr xs) @ '']''"
| "py_repr (JObj kvs) =
     ''{'' @ join '', '' (map (\<lambda>kv. repr_str (fst kv) @ '': '' @ py_repr (snd kv)) kvs) @ ''}''"

text \<open>What an f-string substitutes for \<^verbatim>\<open>{v}\<close>: \<^verbatim>\<open>str(v)\<close>.\<close>

fun py_str :: "json \<Rightarrow> string" where
  "py_str (JStr s) = s"
| "py_str v = py_repr v"

fun type_name :: "json \<Rightarrow> string" where
  "type_name JNull = ''NoneType''"
| "type_name (JBool _) = ''bool''"
| "type_name (JInt _) = ''int''"
| "type_name (JFloat _) = ''float''"
| "type_name (JStr _) = ''str''"
| "type_name (JArr _) = ''list''"
| "type_name (JObj _) = ''dict''"

definition quoted :: "string \<Rightarrow> string" where
  "quoted s = CHR 0x27 # s @ [CHR 0x27]"

text \<open>\<^verbatim>\<open>str(e)\<close>. Starlette prints an \<open>HTTPException\<close> as its status code, a colon and its
  detail.\<close>

fun str_exn :: "exn \<Rightarrow> string" where
  "str_exn (HTTPException c d) = str_nat c @ '': '' @ d"
| "str_exn (TypeError m) = m"
| "str_exn (AttributeError m) = m"
| "str_exn (KeyError k) = repr_str k"
| "str_exn (ValueError m) = m"
| "str_exn (UnicodeEncodeError m) = m"
| "str_exn (Error m) = m"

subsection \<open>Operations on a parsed body\<close>

text \<open>\<^verbatim>\<open>k in v\<close> for a string \<open>k\<close>: key membership in a dict, element membership in a
  list, substring test in a string, \<open>TypeError\<close> otherwise.\<close>

fun py_in :: "string \<Rightarrow> json \<Rightarrow> exn + bool" where
  "py_in k (JObj kvs) = Inr (k \<in> set (map fst kvs))"
| "py_in k (JArr xs) = Inr (JStr k \<in> set xs)"
| "py_in k (JStr s) = Inr (sublist k s)"
| "py_in k v = Inl (TypeError (''argument of type '' @ quoted (type_name v) @ '' is not iterable''))"

text \<open>\<^verbatim>\<open>v[k]\<close> for a string \<open>k\<close>.\<close>

fun py_getitem :: "json \<Rightarrow> string \<Rightarrow> exn + json" where
  "py_getitem (JObj kvs) k = (case map_of kvs k of None \<Rightarrow> Inl (KeyError k) | Some v \<Rightarrow> Inr v)"
| "py_getitem (JArr xs) k = Inl (TypeError ''list indices must be integers or slices, not str'')"
| "py_getitem (JStr s) k = Inl (TypeError (''string indices must be integers, not '' @ quoted ''str''))"
| "py_getitem v k = Inl (TypeError (quoted (type_name v) @ '' object is not subscriptable''))"

text \<open>\<^verbatim>\<open>v.get(k, d)\<close>: the value at the key, or the default; only a dict has the
  method.\<close>

definition dict_get :: "(string \<times> json) list \<Rightarrow> string \<Rightarrow> json \<Rightarrow> json" where
  "dict_get kvs k d = (case map_of kvs k of None \<Rightarrow> d | Some v \<Rightarrow> v)"

fun py_get :: "json \<Rightarrow> string \<Rightarrow> json \<Rightarrow> exn + json" where
  "py_get (JObj kvs) k d = Inr (dict_get kvs k d)"
| "py_get v k d =
     Inl (AttributeError (quoted (type_name v) @ '' object has no attribute '' @ quoted ''get''))"

text \<open>Assignment \<^verbatim>\<open>d[k] = v\<close> on an insertion-ordered dict: an existing key keeps its
  place, a new key goes last.\<close>

fun dict_set :: "'k \<Rightarrow> 'v \<Rightarrow> ('k \<times> 'v) list \<Rightarrow> ('k \<times> 'v) list" where
  "dict_set k v [] = [(k, v)]"
| "dict_set k v (p # ps) = (if fst p = k then (k, v) # ps else p # dict_set k v ps)"

section \<open>Tools and the registry\<close>

text \<open>
  Modelled from the spec: the module \<^verbatim>\<open>tools\<close> (the class \<^verbatim>\<open>ToolHandler\<close>, its thirteen
  subclasses and the content items their \<^verbatim>\<open>run_tool\<close> returns) is not among the sources.
  The spec gives a handler a name, a descriptor (name, description, input schema) and an
  invocation that takes the arguments and returns a sequence of content items; a content
  item either exposes a \<^verbatim>\<open>text\<close> field or does not. A content item is an object, carried
  here with its class name where it has no text.
\<close>

datatype ContentItem =
    TextContent string
  | OtherContent string

fun class_name :: "ContentItem \<Rightarrow> string" where
  "class_name (TextContent _) = ''TextContent''"
| "class_name (OtherContent c) = c"

text \<open>A Python sequence is a \<^verbatim>\<open>list\<close> or a \<^verbatim>\<open>tuple\<close>; \<^verbatim>\<open>isinstance(_, list)\<close> tells them
  apart.\<close>

datatype pyseq =
    PyList "ContentItem list"
  | PyTuple "ContentItem list"

fun items :: "pyseq \<Rightarrow> ContentItem list" where
  "items (PyList xs) = xs"
| "items (PyTuple xs) = xs"

record Tool =
  tool_name :: string
  description :: string
  inputSchema :: json

text \<open>A handler acts on the world outside the gateway (the note store), of type \<open>'w\<close>:
  \<open>run_tool\<close> takes the arguments and the world, and returns the sequence or the exception
  raised, and the world it leaves.\<close>

record 'w ToolHandler =
  name :: string
  get_tool_description :: Tool
  run_tool :: "json \<Rightarrow> 'w \<Rightarrow> (exn + pyseq) \<times> 'w"

text \<open>The global \<^verbatim>\<open>tool_handlers\<close>: a dict from tool name to handler.\<close>

type_synonym 'w registry = "(string \<times> 'w ToolHandler) list"

definition add_tool_handler :: "'w ToolHandler \<Rightarrow> 'w registry \<Rightarrow> 'w registry" where
  "add_tool_handler tool_class tool_handlers = dict_set (name tool_class) tool_class tool_handlers"

text \<open>The state a request runs in: the world of the handlers, and the log of the
  invocations made so far (tool name and arguments), which the model keeps to tell
  whether a handler ran.\<close>

record 'w state =
  world :: 'w
  calls :: "(string \<times> json) list"

definition invoke :: "'w ToolHandler \<Rightarrow> json \<Rightarrow> 'w state \<Rightarrow> (exn + pyseq) \<times> 'w state" where
  "invoke handler args s =
     (case run_tool handler args (world s) of
        (r, w) \<Rightarrow> (r, \<lparr>world = w, calls = calls s @ [(name handler, args)]\<rparr>))"

section \<open>The JSON library and responses\<close>

text \<open>The two functions of Python's \<^verbatim>\<open>json\<close> module that the server calls. \<open>loads\<close> returns
  \<open>None\<close> where \<^verbatim>\<open>json.loads\<close> raises.\<close>

record json_module =
  loads :: "string \<Rightarrow> json option"
  dumps :: "json \<Rightarrow> string"

text \<open>\<^verbatim>\<open>result_data\<close>: a value that \<^verbatim>\<open>json.loads\<close> returned or the text itself (a \<^verbatim>\<open>str\<close>),
  or the sequence the handler returned.\<close>

datatype pyval =
    PyJson json
  | PySeq pyseq

text \<open>What the JSON encoder makes of \<^verbatim>\<open>result_data\<close>: a list or tuple becomes an array, and
  an object that is no dict, list, tuple, string, number, boolean or \<^verbatim>\<open>None\<close> raises
  \<open>TypeError\<close>.\<close>

fun encode :: "pyval \<Rightarrow> exn + json" where
  "encode (PyJson j) = Inr j"
| "encode (PySeq result) =
     (case items result of
        [] \<Rightarrow> Inr (JArr [])
      | item # _ \<Rightarrow>
          Inl (TypeError (''Object of type '' @ class_name item @ '' is not JSON serializable'')))"

text \<open>\<^verbatim>\<open>isinstance(result_data, (dict, list))\<close>.\<close>

fun is_dict_or_list :: "pyval \<Rightarrow> bool" where
  "is_dict_or_list (PyJson (JObj _)) = True"
| "is_dict_or_list (PyJson (JArr _)) = True"
| "is_dict_or_list (PySeq (PyList _)) = True"
| "is_dict_or_list _ = False"

text \<open>An HTTP response: the status code and the value the body encodes (for a body of
  plain text, the text).\<close>

record response =
  status_code :: nat
  content :: json

text \<open>Whether a string holds a surrogate: the byte \<open>0xED\<close> followed by a byte from \<open>0xA0\<close>
  on.\<close>

fun has_surrogate :: "string \<Rightarrow> bool" where
  "has_surrogate [] = False"
| "has_surrogate (c # cs) =
     ((c = CHR 0xED \<and> (case cs of [] \<Rightarrow> False | d # _ \<Rightarrow> 160 \<le> (of_char d :: nat)))
      \<or> has_surrogate cs)"

text \<open>Whether a value holds a float that is no number of JSON (\<^verbatim>\<open>nan\<close>, an infinity), and
  whether it holds a string or a key with a surrogate.\<close>

fun out_of_range :: "json \<Rightarrow> bool" where
  "out_of_range (JFloat (Finite _ _ _)) = False"
| "out_of_range (JFloat _) = True"
| "out_of_range (JArr xs) = (\<exists>x \<in> set xs. out_of_range x)"
| "out_of_range (JObj kvs) = (\<exists>kv \<in> set kvs. out_of_range (snd kv))"
| "out_of_range v = False"

fun surrogates :: "json \<Rightarrow> bool" where
  "surrogates (JStr s) = has_surrogate s"
| "surrogates (JArr xs) = (\<exists>x \<in> set xs. surrogates x)"
| "surrogates (JObj kvs) = (\<exists>kv \<in> set kvs. has_surrogate (fst kv) \<or> surrogates (snd kv))"
| "surrogates v = False"

text \<open>
  \<^verbatim>\<open>JSONResponse(status_code=code, content=body)\<close>. Starlette renders the body when the
  response is built: \<^verbatim>\<open>json.dumps(content, ensure_ascii=False, allow_nan=False, ...)\<close>, which
  raises \<open>ValueError\<close> for a float that is \<^verbatim>\<open>nan\<close> or infinite, and then
  \<^verbatim>\<open>.encode("utf-8")\<close>, which raises \<open>UnicodeEncodeError\<close> for a surrogate. The message of
  the codec also names the character and its position, which are left out here.
\<close>

definition render :: "json \<Rightarrow> exn + json" where
  "render body =
     (if out_of_range body then Inl (ValueError ''Out of range float values are not JSON compliant'')
      else if surrogates body
        then Inl (UnicodeEncodeError (quoted ''utf-8'' @ '' codec can'' @ [CHR 0x27]
               @ ''t encode character: surrogates not allowed''))
      else Inr body)"

definition JSONResponse :: "nat \<Rightarrow> json \<Rightarrow> exn + response" where
  "JSONResponse code body =
     (case render body of
        Inl e \<Rightarrow> Inl e
      | Inr b \<Rightarrow> Inr \<lparr>status_code = code, content = b\<rparr>)"

section \<open>The REST surface\<close>

record ToolCallRequest =
  req_name :: string
  arguments :: "(string \<times> json) list"

text \<open>\<^verbatim>\<open>list_tools\<close>, and the same loop in \<^verbatim>\<open>sse_call_tool\<close>.\<close>

definition tools_list :: "'w registry \<Rightarrow> json" where
  "tools_list tool_handlers =
     JArr (map (\<lambda>(n, handler).
        let tool_desc = get_tool_description handler
        in JObj [(''name'', JStr (tool_name tool_desc)),
                 (''description'', JStr (description tool_desc)),
                 (''inputSchema'', inputSchema tool_desc)]) tool_handlers)"

definition list_tools :: "'w registry \<Rightarrow> json" where
  "list_tools tool_handlers = JObj [(''tools'', tools_list tool_handlers)]"

text \<open>The conversion of the handler's result in \<^verbatim>\<open>call_tool\<close> (lines 119 to 128).\<close>

definition call_tool_result_data :: "json_module \<Rightarrow> pyseq \<Rightarrow> pyval" where
  "call_tool_result_data J result =
     (case items result of
        [] \<Rightarrow> PySeq result
      | TextContent result_text # _ \<Rightarrow>
          (case loads J result_text of
             Some parsed \<Rightarrow> PyJson parsed
           | None \<Rightarrow> PyJson (JStr result_text))
      | OtherContent _ # _ \<Rightarrow> PySeq result)"

text \<open>The body of the \<^verbatim>\<open>try\<close> in \<^verbatim>\<open>call_tool\<close>. The lookup \<open>map_of\<close> is both the test
  \<^verbatim>\<open>request.name not in tool_handlers\<close> and the read \<^verbatim>\<open>tool_handlers[request.name]\<close>.\<close>

definition call_tool_try ::
  "json_module \<Rightarrow> 'w registry \<Rightarrow> ToolCallRequest \<Rightarrow> 'w state \<Rightarrow> (exn + response) \<times> 'w state" where
  "call_tool_try J tool_handlers request s =
     (case map_of tool_handlers (req_name request) of
        None \<Rightarrow>
          (Inl (HTTPException 404
             (''Tool '' @ quoted (req_name request) @ '' not found. Available tools: ''
                @ py_repr (JArr (map (JStr \<circ> fst) tool_handlers)))), s)
      | Some handler \<Rightarrow>
          (case invoke handler (JObj (arguments request)) s of
             (Inl e, s') \<Rightarrow> (Inl e, s')
           | (Inr result, s') \<Rightarrow>
               (case encode (call_tool_result_data J result) of
                  Inl e \<Rightarrow> (Inl e, s')
                | Inr result_data \<Rightarrow>
                    (JSONResponse 200
                       (JObj [(''success'', JBool True),
                              (''tool'', JStr (req_name request)),
                              (''result'', result_data)]), s'))))"

text \<open>The two \<^verbatim>\<open>except\<close> clauses of \<^verbatim>\<open>call_tool\<close>.\<close>

definition call_tool ::
  "json_module \<Rightarrow> 'w registry \<Rightarrow> ToolCallRequest \<Rightarrow> 'w state \<Rightarrow> (exn + response) \<times> 'w state" where
  "call_tool J tool_handlers request s =
     (case call_tool_try J tool_handlers request s of
        (Inl (HTTPException c d), s') \<Rightarrow> (Inl (HTTPException c d), s')
      | (Inl e, s') \<Rightarrow> (Inl (HTTPException 500 (str_exn e)), s')
      | (Inr r, s') \<Rightarrow> (Inr r, s'))"

text \<open>What the server answers when an exception leaves an endpoint: the plain text
  \<^verbatim>\<open>Internal Server Error\<close> with status 500.\<close>

definition internal_server_error :: response where
  "internal_server_error = \<lparr>status_code = 500, content = JStr ''Internal Server Error''\<rparr>"

text \<open>FastAPI answers an \<open>HTTPException\<close> that leaves an endpoint with its status code and
  the body \<^verbatim>\<open>{"detail": detail}\<close>, and any other exception with status 500. The detail
  is taken to be text that encodes: the name of a \<open>ToolCallRequest\<close> is a \<^verbatim>\<open>str\<close> that
  pydantic has validated before \<^verbatim>\<open>call_tool\<close> runs (a string with a surrogate is answered
  with 422 there), and the names of the registry are those of the handler classes. A
  handler whose exception text holds a surrogate is outside this function.\<close>

fun http_exception_handler :: "exn + response \<Rightarrow> response" where
  "http_exception_handler (Inr r) = r"
| "http_exception_handler (Inl (HTTPException c d)) =
     \<lparr>status_code = c, content = JObj [(''detail'', JStr d)]\<rparr>"
| "http_exception_handler (Inl e) = internal_server_error"

text \<open>\<^verbatim>\<open>POST /tools/call\<close>.\<close>

definition post_tools_call ::
  "json_module \<Rightarrow> 'w registry \<Rightarrow> ToolCallRequest \<Rightarrow> 'w state \<Rightarrow> response \<times> 'w state" where
  "post_tools_call J tool_handlers request s =
     (case call_tool J tool_handlers request s of (r, s') \<Rightarrow> (http_exception_handler r, s'))"

section \<open>The JSON-RPC surface: \<^verbatim>\<open>POST /sse\<close>\<close>

text \<open>\<^verbatim>\<open>"jsonrpc" in body and body["jsonrpc"] == "2.0"\<close>; the second operand is evaluated
  only when the first is true.\<close>

definition is_jsonrpc2 :: "json \<Rightarrow> exn + bool" where
  "is_jsonrpc2 body =
     (case py_in ''jsonrpc'' body of
        Inl e \<Rightarrow> Inl e
      | Inr False \<Rightarrow> Inr False
      | Inr True \<Rightarrow>
          (case py_getitem body ''jsonrpc'' of
             Inl e \<Rightarrow> Inl e
           | Inr v \<Rightarrow> Inr (v = JStr ''2.0'')))"

text \<open>The test \<^verbatim>\<open>tool_name not in tool_handlers\<close> and the read \<^verbatim>\<open>tool_handlers[tool_name]\<close>
  in one: a list or a dict is unhashable and the test raises \<open>TypeError\<close>; a value that is
  no string equals no key.\<close>

fun lookup_tool :: "'w registry \<Rightarrow> json \<Rightarrow> exn + 'w ToolHandler option" where
  "lookup_tool tool_handlers (JStr n) = Inr (map_of tool_handlers n)"
| "lookup_tool tool_handlers (JArr _) = Inl (TypeError (''unhashable type: '' @ quoted ''list''))"
| "lookup_tool tool_handlers (JObj _) = Inl (TypeError (''unhashable type: '' @ quoted ''dict''))"
| "lookup_tool tool_handlers v = Inr None"

text \<open>The conversion of the handler's result in \<^verbatim>\<open>sse_call_tool\<close> (lines 230 to 237).\<close>

definition sse_result_data :: "json_module \<Rightarrow> pyseq \<Rightarrow> pyval" where
  "sse_result_data J result =
     (case items result of
        [] \<Rightarrow> PySeq result
      | TextContent result_text # _ \<Rightarrow>
          (case loads J result_text of
             Some parsed \<Rightarrow> PyJson parsed
           | None \<Rightarrow> PyJson (JStr result_text))
      | OtherContent _ # _ \<Rightarrow> PySeq result)"

text \<open>The \<^verbatim>\<open>"text"\<close> entry of the content item (line 246):
  \<^verbatim>\<open>json.dumps(result_data) if isinstance(result_data, (dict, list)) else result_data\<close>,
  as the response body encodes it.\<close>

definition text_entry :: "json_module \<Rightarrow> pyval \<Rightarrow> exn + json" where
  "text_entry J result_data =
     (if is_dict_or_list result_data
      then (case encode result_data of Inl e \<Rightarrow> Inl e | Inr j \<Rightarrow> Inr (JStr (dumps J j)))
      else encode result_data)"

text \<open>The branch \<^verbatim>\<open>method == "tools/call"\<close>.\<close>

definition sse_tools_call ::
  "json_module \<Rightarrow> 'w registry \<Rightarrow> json \<Rightarrow> json \<Rightarrow> 'w state \<Rightarrow> (exn + response) \<times> 'w state" where
  "sse_tools_call J tool_handlers params request_id s =
     (case py_get params ''name'' JNull of
        Inl e \<Rightarrow> (Inl e, s)
      | Inr tool \<Rightarrow>
     (case py_get params ''arguments'' (JObj []) of
        Inl e \<Rightarrow> (Inl e, s)
      | Inr args \<Rightarrow>
     (case lookup_tool tool_handlers tool of
        Inl e \<Rightarrow> (Inl e, s)
      | Inr None \<Rightarrow>
          (JSONResponse 200
             (JObj [(''jsonrpc'', JStr ''2.0''),
                    (''id'', request_id),
                    (''error'', JObj [(''code'', JInt (- 32601)),
                                      (''message'', JStr (''Tool not found: '' @ py_str tool))])]), s)
      | Inr (Some handler) \<Rightarrow>
          (case invoke handler args s of
             (Inl e, s') \<Rightarrow> (Inl e, s')
           | (Inr result, s') \<Rightarrow>
               (case text_entry J (sse_result_data J result) of
                  Inl e \<Rightarrow> (Inl e, s')
                | Inr t \<Rightarrow>
                    (JSONResponse 200
                       (JObj [(''jsonrpc'', JStr ''2.0''),
                              (''id'', request_id),
                              (''result'', JObj [(''content'',
                                 JArr [JObj [(''type'', JStr ''text''), (''text'', t)]])])]), s'))))))"

text \<open>The branch of a JSON-RPC 2.0 body (lines 188 to 280).\<close>

definition sse_jsonrpc ::
  "json_module \<Rightarrow> 'w registry \<Rightarrow> json \<Rightarrow> 'w state \<Rightarrow> (exn + response) \<times> 'w state" where
  "sse_jsonrpc J tool_handlers body s =
     (case py_get body ''method'' (JStr []) of
        Inl e \<Rightarrow> (Inl e, s)
      | Inr meth \<Rightarrow>
     (case py_get body ''params'' (JObj []) of
        Inl e \<Rightarrow> (Inl e, s)
      | Inr params \<Rightarrow>
     (case py_get body ''id'' JNull of
        Inl e \<Rightarrow> (Inl e, s)
      | Inr request_id \<Rightarrow>
          if meth = JStr ''tools/list'' then
            (JSONResponse 200
               (JObj [(''jsonrpc'', JStr ''2.0''),
                      (''id'', request_id),
                      (''result'', JObj [(''tools'', tools_list tool_handlers)])]), s)
          else if meth = JStr ''tools/call'' then
            sse_tools_call J tool_handlers params request_id s
          else if meth = JStr ''initialize'' then
            (JSONResponse 200
               (JObj [(''jsonrpc'', JStr ''2.0''),
                      (''id'', request_id),
                      (''result'', JObj
                         [(''protocolVersion'', JStr ''2024-11-05''),
                          (''capabilities'', JObj [(''tools'', JObj [])]),
                          (''serverInfo'', JObj [(''name'', JStr ''mcp-obsidian''),
                                                 (''version'', JStr ''0.2.1'')])])]), s)
          else
            (JSONResponse 200
               (JObj [(''jsonrpc'', JStr ''2.0''),
                      (''id'', request_id),
                      (''error'', JObj [(''code'', JInt (- 32601)),
                                        (''message'', JStr (''Method not found: '' @ py_str meth))])]), s))))"

text \<open>The fallback to the simple format (lines 283 to 292): the handler's sequence goes
  into the response as it is.\<close>

definition sse_fallback :: "'w registry \<Rightarrow> json \<Rightarrow> 'w state \<Rightarrow> (exn + response) \<times> 'w state" where
  "sse_fallback tool_handlers body s =
     (case py_get body ''name'' JNull of
        Inl e \<Rightarrow> (Inl e, s)
      | Inr tool \<Rightarrow>
     (case py_get body ''arguments'' (JObj []) of
        Inl e \<Rightarrow> (Inl e, s)
      | Inr args \<Rightarrow>
     (case lookup_tool tool_handlers tool of
        Inl e \<Rightarrow> (Inl e, s)
      | Inr None \<Rightarrow> (Inl (HTTPException 404 (''Tool not found: '' @ py_str tool)), s)
      | Inr (Some handler) \<Rightarrow>
          (case invoke handler args s of
             (Inl e, s') \<Rightarrow> (Inl e, s')
           | (Inr result, s') \<Rightarrow>
               (case encode (PySeq result) of
                  Inl e \<Rightarrow> (Inl e, s')
                | Inr r \<Rightarrow>
                    (JSONResponse 200
                       (JObj [(''success'', JBool True), (''result'', r)]), s'))))))"

text \<open>The body of the \<^verbatim>\<open>try\<close> in \<^verbatim>\<open>sse_call_tool\<close>. Its input is what
  \<^verbatim>\<open>await request.json()\<close> gives: the parsed body, or the exception raised for a body that
  is not JSON.\<close>

definition sse_call_tool_try ::
  "json_module \<Rightarrow> 'w registry \<Rightarrow> exn + json \<Rightarrow> 'w state \<Rightarrow> (exn + response) \<times> 'w state" where
  "sse_call_tool_try J tool_handlers request_json s =
     (case request_json of
        Inl e \<Rightarrow> (Inl e, s)
      | Inr body \<Rightarrow>
          (case is_jsonrpc2 body of
             Inl e \<Rightarrow> (Inl e, s)
           | Inr True \<Rightarrow> sse_jsonrpc J tool_handlers body s
           | Inr False \<Rightarrow> sse_fallback tool_handlers body s))"

text \<open>\<^verbatim>\<open>sse_call_tool\<close>: the \<^verbatim>\<open>try\<close> and its \<^verbatim>\<open>except Exception\<close>. When the response of the
  \<^verbatim>\<open>except\<close> branch cannot be built (the text of the exception holds a surrogate), the
  exception of the rendering leaves the endpoint.\<close>

definition sse_call_tool ::
  "json_module \<Rightarrow> 'w registry \<Rightarrow> exn + json \<Rightarrow> 'w state \<Rightarrow> response \<times> 'w state" where
  "sse_call_tool J tool_handlers request_json s =
     (case sse_call_tool_try J tool_handlers request_json s of
        (Inr r, s') \<Rightarrow> (r, s')
      | (Inl e, s') \<Rightarrow>
          (case JSONResponse 500
                  (JObj [(''jsonrpc'', JStr ''2.0''),
                         (''error'', JObj [(''code'', JInt (- 32603)),
                                           (''message'', JStr (str_exn e))])]) of
             Inr r \<Rightarrow> (r, s')
           | Inl e' \<Rightarrow> (internal_server_error, s')))"

section \<open>The event stream: \<^verbatim>\<open>GET /sse\<close>\<close>

text \<open>
  What one turn of the loop of \<^verbatim>\<open>event_generator\<close> meets: \<^verbatim>\<open>is_disconnected()\<close> returns
  true, or raises an \<^verbatim>\<open>Exception\<close>; or it returns false and \<^verbatim>\<open>asyncio.sleep(1)\<close> returns, or
  raises an \<^verbatim>\<open>Exception\<close>; or the task is cancelled at one of the two \<^verbatim>\<open>await\<close>s
  (\<^verbatim>\<open>asyncio.CancelledError\<close>); or the generator is closed at the \<^verbatim>\<open>yield\<close> it is suspended
  at when the turn would start (\<^verbatim>\<open>GeneratorExit\<close>). The last two are no instances of
  \<^verbatim>\<open>Exception\<close>. The generator is run against a finite list of such observations; when
  the list is used up the generator is still in its loop.
\<close>

datatype tick =
    Disconnected
  | CheckRaised exn
  | Slept
  | SleepRaised exn
  | Cancelled
  | Closed

text \<open>How the loop ends: not yet, by its \<^verbatim>\<open>break\<close>, by an \<^verbatim>\<open>Exception\<close>, or by an
  exception that \<^verbatim>\<open>except Exception\<close> does not catch.\<close>

datatype ending =
    Suspended
  | Returned
  | Raised exn
  | Escaped

text \<open>The comment line of the keep-alive ping, with its two line feeds.\<close>

definition keep_alive :: string where
  "keep_alive = '': keep-alive'' @ [CHR 0x0A, CHR 0x0A]"

text \<open>The loop \<^verbatim>\<open>while True\<close> (lines 155 to 160): the frames it yields and how it ends.\<close>

fun keep_alive_loop :: "tick list \<Rightarrow> string list \<times> ending" where
  "keep_alive_loop [] = ([], Suspended)"
| "keep_alive_loop (Disconnected # ts) = ([], Returned)"
| "keep_alive_loop (CheckRaised e # ts) = ([], Raised e)"
| "keep_alive_loop (SleepRaised e # ts) = ([], Raised e)"
| "keep_alive_loop (Cancelled # ts) = ([], Escaped)"
| "keep_alive_loop (Closed # ts) = ([], Escaped)"
| "keep_alive_loop (Slept # ts) =
     (case keep_alive_loop ts of (frames, r) \<Rightarrow> (keep_alive # frames, r))"

definition data_frame :: "json_module \<Rightarrow> json \<Rightarrow> string" where
  "data_frame J v = ''data: '' @ dumps J v @ [CHR 0x0A, CHR 0x0A]"

definition connection_event :: json where
  "connection_event = JObj [(''type'', JStr ''connection''), (''status'', JStr ''connected'')]"

definition error_event :: "exn \<Rightarrow> json" where
  "error_event e = JObj [(''type'', JStr ''error''), (''message'', JStr (str_exn e))]"

text \<open>\<^verbatim>\<open>event_generator\<close>: the frames yielded, and whether the generator has finished.\<close>

definition event_generator :: "json_module \<Rightarrow> tick list \<Rightarrow> string list \<times> bool" where
  "event_generator J ticks =
     (case keep_alive_loop ticks of
        (frames, Suspended) \<Rightarrow> (data_frame J connection_event # frames, False)
      | (frames, Returned) \<Rightarrow> (data_frame J connection_event # frames, True)
      | (frames, Raised e) \<Rightarrow>
          (data_frame J connection_event # frames @ [data_frame J (error_event e)], True)
      | (frames, Escaped) \<Rightarrow> (data_frame J connection_event # frames, True))"

record StreamingResponse =
  body_frames :: "string list"
  finished :: bool
  media_type :: string
  headers :: "(string \<times> string) list"

text \<open>\<^verbatim>\<open>sse_endpoint\<close>. The endpoint runs beside the registry and in the state of the
  server, as every endpoint does.\<close>

definition sse_endpoint ::
  "json_module \<Rightarrow> 'w registry \<Rightarrow> tick list \<Rightarrow> 'w state \<Rightarrow> StreamingResponse \<times> 'w state" where
  "sse_endpoint J tool_handlers ticks s =
     (case event_generator J ticks of
        (frames, fin) \<Rightarrow>
          (\<lparr>body_frames = frames, finished = fin, media_type = ''text/event-stream'',
            headers = [(''Cache-Control'', ''no-cache''), (''Connection'', ''keep-alive''),
                       (''X-Accel-Buffering'', ''no'')]\<rparr>, s))"

section \<open>A reference \<^verbatim>\<open>json\<close> module\<close>

text \<open>
  The endpoints above take the \<^verbatim>\<open>json\<close> module as a parameter. This section gives one
  to run them with: \<^verbatim>\<open>json.dumps\<close> with its default separators and escapes
  (\<^verbatim>\<open>ensure_ascii\<close>, \<^verbatim>\<open>allow_nan\<close>), and \<^verbatim>\<open>json.loads\<close> of a \<^verbatim>\<open>str\<close> as a recursive
  descent over the text, \<open>None\<close> where \<^verbatim>\<open>json.loads\<close> raises. A number with a fraction or
  an exponent is a float, \<^verbatim>\<open>NaN\<close>, \<^verbatim>\<open>Infinity\<close> and \<^verbatim>\<open>-Infinity\<close> are read and written,
  an integer literal of more than 4300 digits raises, and a \<^verbatim>\<open>\u\<close> escape gives its code
  point, two escapes that are a surrogate pair the one code point they encode. The depth
  at which the interpreter gives up with \<^verbatim>\<open>RecursionError\<close> depends on the platform and
  is no part of this model.
\<close>

definition dumps_code_point :: "nat \<Rightarrow> string" where
  "dumps_code_point n =
     (if n = 0x22 then [CHR 0x5C, CHR 0x22]
      else if n = 0x5C then [CHR 0x5C, CHR 0x5C]
      else if n = 0x0A then [CHR 0x5C, CHR ''n'']
      else if n = 0x0D then [CHR 0x5C, CHR ''r'']
      else if n = 0x09 then [CHR 0x5C, CHR ''t'']
      else if n = 0x08 then [CHR 0x5C, CHR ''b'']
      else if n = 0x0C then [CHR 0x5C, CHR ''f'']
      else if n < 32 \<or> 127 \<le> n then
        (if n < 65536 then CHR 0x5C # CHR ''u'' # hex4 n
         else CHR 0x5C # CHR ''u'' # hex4 (55296 + (n - 65536) div 1024)
                @ CHR 0x5C # CHR ''u'' # hex4 (56320 + (n - 65536) mod 1024))
      else [char_of n])"

definition dumps_str :: "string \<Rightarrow> string" where
  "dumps_str s = CHR 0x22 # concat (map dumps_code_point (utf8_decode s)) @ [CHR 0x22]"

fun dumps_float :: "pyfloat \<Rightarrow> string" where
  "dumps_float NaN = ''NaN''"
| "dumps_float (Infinite neg) = (if neg then ''-Infinity'' else ''Infinity'')"
| "dumps_float (Finite neg m e) = float_repr (Finite neg m e)"

fun json_dumps :: "json \<Rightarrow> string" where
  "json_dumps JNull = ''null''"
| "json_dumps (JBool b) = (if b then ''true'' else ''false'')"
| "json_dumps (JInt i) = str_int i"
| "json_dumps (JFloat f) = dumps_float f"
| "json_dumps (JStr s) = dumps_str s"
| "json_dumps (JArr xs) = ''['' @ join '', '' (map json_dumps xs) @ '']''"
| "json_dumps (JObj kvs) =
     ''{'' @ join '', '' (map (\<lambda>kv. dumps_str (fst kv) @ '': '' @ json_dumps (snd kv)) kvs) @ ''}''"

definition is_ws :: "char \<Rightarrow> bool" where
  "is_ws c = (c = CHR '' '' \<or> c = CHR 0x09 \<or> c = CHR 0x0A \<or> c = CHR 0x0D)"

fun skip_ws :: "string \<Rightarrow> string" where
  "skip_ws [] = []"
| "skip_ws (c # cs) = (if is_ws c then skip_ws cs else c # cs)"

definition is_digit :: "char \<Rightarrow> bool" where
  "is_digit c = (48 \<le> (of_char c :: nat) \<and> (of_char c :: nat) \<le> 57)"

definition digits_val :: "string \<Rightarrow> nat" where
  "digits_val ds = foldl (\<lambda>a c. 10 * a + (of_char c - 48)) 0 ds"

text \<open>A number: an optional minus sign, then \<^verbatim>\<open>0\<close> or a digit string that does not
  start with \<^verbatim>\<open>0\<close>, then a fraction (a point and digits) and an exponent (\<^verbatim>\<open>e\<close> or
  \<^verbatim>\<open>E\<close>, a sign, digits), each of them optional. With neither it is an \<^verbatim>\<open>int\<close>, which
  Python refuses to read from more than \<open>max_str_digits\<close> digits; otherwise it is the
  \<^verbatim>\<open>float\<close> of the literal.\<close>

definition max_str_digits :: nat where
  "max_str_digits = 4300"

definition scan_digits :: "string \<Rightarrow> (string \<times> string) option" where
  "scan_digits cs =
     (case cs of
        [] \<Rightarrow> None
      | c # r \<Rightarrow>
          if c = CHR ''0'' then Some ([c], r)
          else if is_digit c then Some (takeWhile is_digit cs, dropWhile is_digit cs)
          else None)"

definition scan_fraction :: "string \<Rightarrow> string \<times> string" where
  "scan_fraction cs =
     (case cs of
        c # d # r \<Rightarrow>
          if c = CHR ''.'' \<and> is_digit d
          then (takeWhile is_digit (d # r), dropWhile is_digit (d # r))
          else ([], cs)
      | _ \<Rightarrow> ([], cs))"

definition scan_exponent :: "string \<Rightarrow> (int \<times> string) option" where
  "scan_exponent cs =
     (case cs of
        [] \<Rightarrow> None
      | c # r \<Rightarrow>
          if c = CHR ''e'' \<or> c = CHR ''E'' then
            (let neg = (case r of [] \<Rightarrow> False | g # _ \<Rightarrow> g = CHR ''-'');
                 r' = (case r of [] \<Rightarrow> [] | g # t \<Rightarrow> if g = CHR ''-'' \<or> g = CHR ''+'' then t else r);
                 ds = takeWhile is_digit r'
             in if ds = [] then None
                else Some (if neg then - int (digits_val ds) else int (digits_val ds),
                           dropWhile is_digit r'))
          else None)"

definition scan_unsigned :: "bool \<Rightarrow> string \<Rightarrow> (json \<times> string) option" where
  "scan_unsigned neg cs =
     (case scan_digits cs of
        None \<Rightarrow> None
      | Some (ds, r1) \<Rightarrow>
          (case scan_fraction r1 of
             (fs, r2) \<Rightarrow>
               (case scan_exponent r2 of
                  None \<Rightarrow>
                    if fs = [] then
                      (if max_str_digits < length ds then None
                       else Some (JInt (if neg then - int (digits_val ds) else int (digits_val ds)), r2))
                    else Some (JFloat (to_double neg (digits_val (ds @ fs)) (- int (length fs))), r2)
                | Some (e, r3) \<Rightarrow>
                    Some (JFloat (to_double neg (digits_val (ds @ fs)) (e - int (length fs))), r3))))"

definition scan_number :: "string \<Rightarrow> (json \<times> string) option" where
  "scan_number cs =
     (case cs of
        [] \<Rightarrow> None
      | c # r \<Rightarrow> if c = CHR ''-'' then scan_unsigned True r else scan_unsigned False cs)"

definition hex_val :: "char \<Rightarrow> nat option" where
  "hex_val c =
     (let n = (of_char c :: nat)
      in if 48 \<le> n \<and> n \<le> 57 then Some (n - 48)
         else if 97 \<le> n \<and> n \<le> 102 then Some (n - 87)
         else if 65 \<le> n \<and> n \<le> 70 then Some (n - 55)
         else None)"

definition unescape :: "char \<Rightarrow> char option" where
  "unescape e =
     (if e = CHR 0x22 then Some (CHR 0x22)
      else if e = CHR 0x5C then Some (CHR 0x5C)
      else if e = CHR ''/'' then Some (CHR ''/'')
      else if e = CHR ''b'' then Some (CHR 0x08)
      else if e = CHR ''f'' then Some (CHR 0x0C)
      else if e = CHR ''n'' then Some (CHR 0x0A)
      else if e = CHR ''r'' then Some (CHR 0x0D)
      else if e = CHR ''t'' then Some (CHR 0x09)
      else None)"

definition unicode_escape :: "char \<Rightarrow> char \<Rightarrow> char \<Rightarrow> char \<Rightarrow> nat option" where
  "unicode_escape a b c d =
     (case (hex_val a, hex_val b, hex_val c, hex_val d) of
        (Some h1, Some h2, Some h3, Some h4) \<Rightarrow> Some (((h1 * 16 + h2) * 16 + h3) * 16 + h4)
      | _ \<Rightarrow> None)"

text \<open>The low surrogate that completes the high surrogate \<open>n\<close>, where the six characters
  \<open>b u k1 k2 k3 k4\<close> after it are the escape of one: the code point of the pair.\<close>

definition surrogate_pair ::
  "nat \<Rightarrow> char \<Rightarrow> char \<Rightarrow> char \<Rightarrow> char \<Rightarrow> char \<Rightarrow> char \<Rightarrow> nat option" where
  "surrogate_pair n b u k1 k2 k3 k4 =
     (if 55296 \<le> n \<and> n \<le> 56319 \<and> b = CHR 0x5C \<and> u = CHR ''u'' then
        (case unicode_escape k1 k2 k3 k4 of
           None \<Rightarrow> None
         | Some m \<Rightarrow>
             if 56320 \<le> m \<and> m \<le> 57343
             then Some (65536 + (n - 55296) * 1024 + (m - 56320))
             else None)
      else None)"

text \<open>The rest of a string literal after its opening quote: the string it denotes and the
  text after the closing quote.\<close>

fun scan_string :: "string \<Rightarrow> (string \<times> string) option" where
  "scan_string [] = None"
| "scan_string [c] = (if c = CHR 0x22 then Some ([], []) else None)"
| "scan_string (c # e # r) =
     (if c = CHR 0x22 then Some ([], e # r)
      else if c = CHR 0x5C then
        (if e = CHR ''u'' then
           (case r of
              h1 # h2 # h3 # h4 # r' \<Rightarrow>
                (case unicode_escape h1 h2 h3 h4 of
                   None \<Rightarrow> None
                 | Some n \<Rightarrow>
                     (case r' of
                        b # u # k1 # k2 # k3 # k4 # r'' \<Rightarrow>
                          (case surrogate_pair n b u k1 k2 k3 k4 of
                             Some p \<Rightarrow>
                               map_option (\<lambda>(s, t). (utf8_encode p @ s, t)) (scan_string r'')
                           | None \<Rightarrow>
                               map_option (\<lambda>(s, t). (utf8_encode n @ s, t)) (scan_string r'))
                      | _ \<Rightarrow> map_option (\<lambda>(s, t). (utf8_encode n @ s, t)) (scan_string r')))
            | _ \<Rightarrow> None)
         else
           (case unescape e of
              None \<Rightarrow> None
            | Some ch \<Rightarrow> map_option (\<lambda>(s, t). (ch # s, t)) (scan_string r)))
      else if (of_char c :: nat) < 32 then None
      else map_option (\<lambda>(s, t). (c # s, t)) (scan_string (e # r)))"

definition make_dict :: "(string \<times> json) list \<Rightarrow> (string \<times> json) list" where
  "make_dict kvs = foldl (\<lambda>d kv. dict_set (fst kv) (snd kv) d) [] kvs"

text \<open>The descent, on text whose leading whitespace is skipped. The first argument bounds
  the depth of the recursion; \<open>json_loads\<close> starts it above the length of the text.\<close>

fun parse_value :: "nat \<Rightarrow> string \<Rightarrow> (json \<times> string) option"
  and parse_elems :: "nat \<Rightarrow> string \<Rightarrow> (json list \<times> string) option"
  and parse_members :: "nat \<Rightarrow> string \<Rightarrow> ((string \<times> json) list \<times> string) option" where
  "parse_value 0 cs = None"
| "parse_value (Suc n) cs =
     (case cs of
        [] \<Rightarrow> None
      | c # r \<Rightarrow>
          if c = CHR 0x22 then map_option (\<lambda>(s, t). (JStr s, t)) (scan_string r)
          else if c = CHR ''['' then
            (case skip_ws r of
               [] \<Rightarrow> None
             | d # r' \<Rightarrow>
                 if d = CHR '']'' then Some (JArr [], r')
                 else map_option (\<lambda>(vs, t). (JArr vs, t)) (parse_elems n (d # r')))
          else if c = CHR ''{'' then
            (case skip_ws r of
               [] \<Rightarrow> None
             | d # r' \<Rightarrow>
                 if d = CHR ''}'' then Some (JObj [], r')
                 else map_option (\<lambda>(kvs, t). (JObj (make_dict kvs), t)) (parse_members n (d # r')))
          else if prefix ''null'' cs then Some (JNull, drop 4 cs)
          else if prefix ''true'' cs then Some (JBool True, drop 4 cs)
          else if prefix ''false'' cs then Some (JBool False, drop 5 cs)
          else if prefix ''NaN'' cs then Some (JFloat NaN, drop 3 cs)
          else if prefix ''Infinity'' cs then Some (JFloat (Infinite False), drop 8 cs)
          else if prefix ''-Infinity'' cs then Some (JFloat (Infinite True), drop 9 cs)
          else scan_number cs)"
| "parse_elems 0 cs = None"
| "parse_elems (Suc n) cs =
     (case parse_value n cs of
        None \<Rightarrow> None
      | Some (v, r) \<Rightarrow>
          (case skip_ws r of
             [] \<Rightarrow> None
           | d # r' \<Rightarrow>
               if d = CHR '','' then map_option (\<lambda>(vs, t). (v # vs, t)) (parse_elems n (skip_ws r'))
               else if d = CHR '']'' then Some ([v], r')
               else None))"
| "parse_members 0 cs = None"
| "parse_members (Suc n) cs =
     (case cs of
        [] \<Rightarrow> None
      | c # r \<Rightarrow>
          if c \<noteq> CHR 0x22 then None
          else
            (case scan_string r of
               None \<Rightarrow> None
             | Some (k, r1) \<Rightarrow>
                 (case skip_ws r1 of
                    [] \<Rightarrow> None
                  | d # r2 \<Rightarrow>
                      if d \<noteq> CHR '':'' then None
                      else
                        (case parse_value n (skip_ws r2) of
                           None \<Rightarrow> None
                         | Some (v, r3) \<Rightarrow>
                             (case skip_ws r3 of
                                [] \<Rightarrow> None
                              | d' # r4 \<Rightarrow>
                                  if d' = CHR '','' then
                                    map_option (\<lambda>(kvs, t). ((k, v) # kvs, t))
                                      (parse_members n (skip_ws r4))
                                  else if d' = CHR ''}'' then Some ([(k, v)], r4)
                                  else None)))))"

definition json_loads :: "string \<Rightarrow> json option" where
  "json_loads s =
     (case parse_value (Suc (2 * length s)) (skip_ws s) of
        None \<Rightarrow> None
      | Some (v, r) \<Rightarrow> if skip_ws r = [] then Some v else None)"

definition json_ref :: json_module where
  "json_ref = \<lparr>loads = json_loads, dumps = json_dumps\<rparr>"

section \<open>Reading requests and responses\<close>

text \<open>A member of a JSON object, \<open>None\<close> where the object has no such member (or the value
  is no object).\<close>

fun field :: "json \<Rightarrow> string \<Rightarrow> json option" where
  "field (JObj kvs) k = map_of kvs k"
| "field v k = None"

text \<open>Values with a hash: everything but a list and a dict.\<close>

fun hashable :: "json \<Rightarrow> bool" where
  "hashable (JArr _) = False"
| "hashable (JObj _) = False"
| "hashable v = True"

text \<open>The names the registry holds, as JSON strings.\<close>

definition registered_names :: "'w registry \<Rightarrow> json list" where
  "registered_names tool_handlers = map (JStr \<circ> fst) tool_handlers"

section \<open>A sample registry\<close>

text \<open>
  Four handlers to run the endpoints with, over a world that is the list of the file
  paths of a vault: one answers with JSON text, one with plain text (and raises when its
  argument is missing), one with a JSON number and one with an empty tuple.
\<close>

definition list_files_in_vault :: "string list ToolHandler" where
  "list_files_in_vault =
     \<lparr>name = ''obsidian_list_files_in_vault'',
      get_tool_description =
        \<lparr>tool_name = ''obsidian_list_files_in_vault'',
         description = ''Lists all files in the vault.'',
         inputSchema = JObj [(''type'', JStr ''object''), (''properties'', JObj [])]\<rparr>,
      run_tool = (\<lambda>args files. (Inr (PyList [TextContent (json_dumps (JArr (map JStr files)))]), files))\<rparr>"

definition delete_file :: "string list ToolHandler" where
  "delete_file =
     \<lparr>name = ''obsidian_delete_file'',
      get_tool_description =
        \<lparr>tool_name = ''obsidian_delete_file'',
         description = ''Deletes a file from the vault.'',
         inputSchema = JObj [(''type'', JStr ''object''), (''required'', JArr [JStr ''filepath''])]\<rparr>,
      run_tool = (\<lambda>args files.
        (case field args ''filepath'' of
           Some (JStr path) \<Rightarrow>
             (Inr (PyList [TextContent (''Successfully deleted '' @ path)]), removeAll path files)
         | _ \<Rightarrow> (Inl (Error ''filepath argument missing in arguments''), files)))\<rparr>"

definition count_files :: "string list ToolHandler" where
  "count_files =
     \<lparr>name = ''count_files'',
      get_tool_description =
        \<lparr>tool_name = ''count_files'',
         description = ''Counts the files in the vault.'',
         inputSchema = JObj [(''type'', JStr ''object'')]\<rparr>,
      run_tool = (\<lambda>args files. (Inr (PyList [TextContent (str_nat (length files))]), files))\<rparr>"

definition no_output :: "string list ToolHandler" where
  "no_output =
     \<lparr>name = ''no_output'',
      get_tool_description =
        \<lparr>tool_name = ''no_output'',
         description = ''Returns nothing.'',
         inputSchema = JObj [(''type'', JStr ''object'')]\<rparr>,
      run_tool = (\<lambda>args files. (Inr (PyTuple []), files))\<rparr>"

definition sample_handlers :: "string list registry" where
  "sample_handlers =
     add_tool_handler no_output
       (add_tool_handler count_files
         (add_tool_handler delete_file
           (add_tool_handler list_files_in_vault [])))"

definition sample_state :: "string list state" where
  "sample_state = \<lparr>world = [''a.md'', ''b.md''], calls = []\<rparr>"

section \<open>Running the reference module\<close>

lemma json_ref_simps [simp]: "loads json_ref = json_loads" "dumps json_ref = json_dumps"
  by (simp_all add: json_ref_def)

lemma loads_object_text: \<open>json_loads ''{"a":1}'' = Some (JObj [(''a'', JInt 1)])\<close>
  by code_simp

lemma loads_plain_text: \<open>json_loads ''plain'' = None\<close>
  by code_simp

lemma loads_array_text: \<open>json_loads ''[1, 2]'' = Some (JArr [JInt 1, JInt 2])\<close>
  by code_simp

section \<open>Facts about responses\<close>

lemma JSONResponse_ok:
  "\<not> out_of_range body \<Longrightarrow> \<not> surrogates body \<Longrightarrow>
   JSONResponse code body = Inr \<lparr>status_code = code, content = body\<rparr>"
  by (simp add: JSONResponse_def render_def)

lemma JSONResponse_Inr:
  "JSONResponse code body = Inr r \<Longrightarrow> r = \<lparr>status_code = code, content = body\<rparr>"
  by (simp add: JSONResponse_def render_def split: if_splits)

lemma JSONResponse_Inl:
  "JSONResponse code body = Inl e \<Longrightarrow> out_of_range body \<or> surrogates body"
  by (simp add: JSONResponse_def render_def split: if_splits)

lemma has_surrogate_ascii:
  "(of_char c :: nat) < 128 \<Longrightarrow> has_surrogate (c # cs) = has_surrogate cs"
  by auto

section \<open>Facts about the dispatch\<close>

lemma is_jsonrpc2_obj:
  "is_jsonrpc2 (JObj kvs) = Inr (map_of kvs ''jsonrpc'' = Some (JStr ''2.0''))"
proof (cases "map_of kvs ''jsonrpc''")
  case None
  then have "''jsonrpc'' \<notin> fst ` set kvs" by (simp add: map_of_eq_None_iff)
  with None show ?thesis by (simp add: is_jsonrpc2_def)
next
  case (Some v)
  then have "''jsonrpc'' \<in> fst ` set kvs" by (metis map_of_eq_None_iff option.distinct(1))
  with Some show ?thesis by (simp add: is_jsonrpc2_def)
qed

lemma sse_try_jsonrpc:
  "map_of kvs ''jsonrpc'' = Some (JStr ''2.0'') \<Longrightarrow>
   sse_call_tool_try J reg (Inr (JObj kvs)) s = sse_jsonrpc J reg (JObj kvs) s"
  by (simp add: sse_call_tool_try_def is_jsonrpc2_obj)

lemma sse_try_fallback:
  "map_of kvs ''jsonrpc'' \<noteq> Some (JStr ''2.0'') \<Longrightarrow>
   sse_call_tool_try J reg (Inr (JObj kvs)) s = sse_fallback reg (JObj kvs) s"
  by (simp add: sse_call_tool_try_def is_jsonrpc2_obj)

lemma sse_jsonrpc_tools_call:
  "dict_get kvs ''method'' (JStr []) = JStr ''tools/call'' \<Longrightarrow>
   sse_jsonrpc J reg (JObj kvs) s =
     sse_tools_call J reg (dict_get kvs ''params'' (JObj [])) (dict_get kvs ''id'' JNull) s"
  by (simp add: sse_jsonrpc_def)

lemma lookup_tool_None_iff:
  "lookup_tool reg tool = Inr None \<longleftrightarrow> hashable tool \<and> tool \<notin> set (registered_names reg)"
  by (cases tool) (auto simp: registered_names_def map_of_eq_None_iff)

lemma sample_handlers_eq:
  "sample_handlers =
     [(''obsidian_list_files_in_vault'', list_files_in_vault),
      (''obsidian_delete_file'', delete_file),
      (''count_files'', count_files),
      (''no_output'', no_output)]"
  by (simp add: sample_handlers_def add_tool_handler_def list_files_in_vault_def delete_file_def
      count_files_def no_output_def)

section \<open>Facts about the REST surface\<close>






section \<open>Facts about a registered tool\<close>

lemma sse_tools_call_registered:
  assumes "dict_get ps ''name'' JNull = JStr n" and "map_of reg n = Some h"
  shows "sse_tools_call J reg (JObj ps) rid s =
     (case invoke h (dict_get ps ''arguments'' (JObj [])) s of
        (Inl e, s') \<Rightarrow> (Inl e, s')
      | (Inr result, s') \<Rightarrow>
          (case text_entry J (sse_result_data J result) of
             Inl e \<Rightarrow> (Inl e, s')
           | Inr t \<Rightarrow>
               (JSONResponse 200
                  (JObj [(''jsonrpc'', JStr ''2.0''),
                         (''id'', rid),
                         (''result'', JObj [(''content'',
                            JArr [JObj [(''type'', JStr ''text''), (''text'', t)]])])]), s')))"
  using assms by (simp add: sse_tools_call_def)

lemma invoke_eq:
  "run_tool h args (world s) = (r, w) \<Longrightarrow>
   invoke h args s = (r, \<lparr>world = w, calls = calls s @ [(name h, args)]\<rparr>)"
  by (simp add: invoke_def)

lemma sample_lookup:
  "map_of sample_handlers ''obsidian_list_files_in_vault'' = Some list_files_in_vault"
  "map_of sample_handlers ''obsidian_delete_file'' = Some delete_file"
  "map_of sample_handlers ''count_files'' = Some count_files"
  "map_of sample_handlers ''no_output'' = Some no_output"
  by (simp_all add: sample_handlers_eq)

section \<open>Facts about the id and about unregistered names\<close>

lemma lookup_tool_unregistered:
  "n \<notin> fst ` set reg \<Longrightarrow> lookup_tool reg (JStr n) = Inr None"
  by (simp add: map_of_eq_None_iff)

lemma sse_tools_call_id:
  "sse_tools_call J reg params rid s = (Inr r, s') \<Longrightarrow> field (content r) ''id'' = Some rid"
  by (auto simp: sse_tools_call_def dest!: JSONResponse_Inr
      split: sum.splits option.splits prod.splits)

lemma sse_jsonrpc_id:
  "sse_jsonrpc J reg (JObj kvs) s = (Inr r, s') \<Longrightarrow>
   field (content r) ''id'' = Some (dict_get kvs ''id'' JNull)"
  by (auto simp: sse_jsonrpc_def dest!: JSONResponse_Inr dest: sse_tools_call_id split: if_splits)

section \<open>Facts about the sample handlers\<close>

lemma result_data_same: "sse_result_data J result = call_tool_result_data J result"
  by (simp add: sse_result_data_def call_tool_result_data_def)

lemma loads_deleted_text: "json_loads ''Successfully deleted a.md'' = None"
  by code_simp

lemma dumps_sample_files: \<open>json_dumps (JArr [JStr ''a.md'', JStr ''b.md'']) = ''["a.md", "b.md"]''\<close>
  by code_simp

lemma loads_sample_files: \<open>json_loads ''["a.md", "b.md"]'' = Some (JArr [JStr ''a.md'', JStr ''b.md''])\<close>
  by code_simp


section \<open>Facts about the event stream\<close>

lemma keep_alive_loop_slept:
  "keep_alive_loop (replicate k Slept @ ts) =
     (replicate k keep_alive @ fst (keep_alive_loop ts), snd (keep_alive_loop ts))"
  by (induction k) (simp_all add: case_prod_beta)

lemma connection_frame:
  \<open>data_frame json_ref connection_event =
     ''data: {"type": "connection", "status": "connected"}'' @ [CHR 0x0A, CHR 0x0A]\<close>
  by code_simp

lemma error_frame:
  \<open>data_frame json_ref (error_event (Error ''connection lost'')) =
     ''data: {"type": "error", "message": "connection lost"}'' @ [CHR 0x0A, CHR 0x0A]\<close>
  by code_simp


section \<open>Facts about text that encodes\<close>

lemma has_surrogate_tool_not_found:
  "has_surrogate (''Tool not found: '' @ m) = has_surrogate m"
  by simp

lemma has_surrogate_method_not_found:
  "has_surrogate (''Method not found: '' @ m) = has_surrogate m"
  by simp

lemma render_failure_encodes:
  "JSONResponse code body = Inl e \<Longrightarrow> \<not> has_surrogate (str_exn e)"
  by (auto simp: JSONResponse_def render_def quoted_def split: if_splits)

lemma str_nat_404: "str_nat 404 = ''404''"
  by code_simp
section \<open>An unknown tool on the JSON-RPC surface\<close>

text \<open>
  Claim C1, as amended. For a JSON-RPC 2.0 request to \<^verbatim>\<open>POST /sse\<close> with method
  \<^verbatim>\<open>tools/call\<close> whose \<^verbatim>\<open>params\<close> is absent or an object, and whose \<^verbatim>\<open>params.name\<close> is
  missing, or is a string, a number, a boolean or \<^verbatim>\<open>null\<close> that is no registered tool
  name: when the envelope of the answer can be encoded (the id of the request holds no
  \<^verbatim>\<open>NaN\<close> or infinite number and no lone surrogate, the text of the name no lone
  surrogate), the response has status 200, its body is the JSON-RPC envelope with the
  request's id and an error of code -32601 whose message is \<^verbatim>\<open>Tool not found: \<close> followed
  by the name, it has no \<^verbatim>\<open>result\<close> member, and no handler runs. When the envelope cannot
  be encoded, the response has status 500, and still no handler runs.
\<close>

theorem C1_tool_not_found:
  assumes "map_of kvs ''jsonrpc'' = Some (JStr ''2.0'')"
    and "dict_get kvs ''method'' (JStr []) = JStr ''tools/call''"
    and "dict_get kvs ''params'' (JObj []) = JObj ps"
    and "hashable (dict_get ps ''name'' JNull)"
    and "dict_get ps ''name'' JNull \<notin> set (registered_names reg)"
  shows "(\<not> out_of_range (dict_get kvs ''id'' JNull) \<and> \<not> surrogates (dict_get kvs ''id'' JNull)
          \<and> \<not> has_surrogate (py_str (dict_get ps ''name'' JNull)) \<longrightarrow>
        sse_call_tool J reg (Inr (JObj kvs)) s =
          (\<lparr>status_code = 200,
            content = JObj [(''jsonrpc'', JStr ''2.0''),
                            (''id'', dict_get kvs ''id'' JNull),
                            (''error'', JObj [(''code'', JInt (- 32601)),
                                              (''message'', JStr (''Tool not found: ''
                                                 @ py_str (dict_get ps ''name'' JNull)))])]\<rparr>, s)
        \<and> field (content (fst (sse_call_tool J reg (Inr (JObj kvs)) s))) ''result'' = None)
    \<and> (out_of_range (dict_get kvs ''id'' JNull) \<or> surrogates (dict_get kvs ''id'' JNull)
          \<or> has_surrogate (py_str (dict_get ps ''name'' JNull)) \<longrightarrow>
        status_code (fst (sse_call_tool J reg (Inr (JObj kvs)) s)) = 500
        \<and> snd (sse_call_tool J reg (Inr (JObj kvs)) s) = s)"
proof -
  let ?rid = "dict_get kvs ''id'' JNull"
  let ?m = "''Tool not found: '' @ py_str (dict_get ps ''name'' JNull)"
  let ?body = "JObj [(''jsonrpc'', JStr ''2.0''), (''id'', ?rid),
                     (''error'', JObj [(''code'', JInt (- 32601)), (''message'', JStr ?m)])]"
  have l: "lookup_tool reg (dict_get ps ''name'' JNull) = Inr None"
    using assms(4,5) by (simp add: lookup_tool_None_iff)
  have "sse_call_tool_try J reg (Inr (JObj kvs)) s = sse_tools_call J reg (JObj ps) ?rid s"
    using assms(1,2,3) by (simp add: sse_try_jsonrpc sse_jsonrpc_tools_call)
  also have "\<dots> = (JSONResponse 200 ?body, s)"
    using l by (simp add: sse_tools_call_def)
  finally have t: "sse_call_tool_try J reg (Inr (JObj kvs)) s = (JSONResponse 200 ?body, s)" .
  have oor: "out_of_range ?body = out_of_range ?rid" by simp
  have sur: "surrogates ?body =
      (surrogates ?rid \<or> has_surrogate (py_str (dict_get ps ''name'' JNull)))"
    by simp
  show ?thesis
  proof (intro conjI impI)
    assume ok: "\<not> out_of_range ?rid \<and> \<not> surrogates ?rid
      \<and> \<not> has_surrogate (py_str (dict_get ps ''name'' JNull))"
    then have "JSONResponse 200 ?body = Inr \<lparr>status_code = 200, content = ?body\<rparr>"
      using oor sur by (intro JSONResponse_ok) simp_all
    with t show "sse_call_tool J reg (Inr (JObj kvs)) s = (\<lparr>status_code = 200, content = ?body\<rparr>, s)"
      by (simp add: sse_call_tool_def)
    then show "field (content (fst (sse_call_tool J reg (Inr (JObj kvs)) s))) ''result'' = None"
      by simp
  next
    assume bad: "out_of_range ?rid \<or> surrogates ?rid
      \<or> has_surrogate (py_str (dict_get ps ''name'' JNull))"
    then obtain e where e: "JSONResponse 200 ?body = Inl e"
      using oor sur by (cases "JSONResponse 200 ?body") (auto dest!: JSONResponse_Inr
          simp: JSONResponse_def render_def split: if_splits)
    from e t show "status_code (fst (sse_call_tool J reg (Inr (JObj kvs)) s)) = 500"
      by (simp add: sse_call_tool_def JSONResponse_def internal_server_error_def
          split: sum.splits)
    from e t show "snd (sse_call_tool J reg (Inr (JObj kvs)) s) = s"
      by (simp add: sse_call_tool_def split: sum.splits)
  qed
qed

text \<open>The scenario of the spec: the tool \<^verbatim>\<open>nonexistent\<close>, request id 1; and the same
  request with the id \<^verbatim>\<open>NaN\<close>, which \<^verbatim>\<open>request.json()\<close> accepts and the response cannot
  carry.\<close>

theorem C1_tool_not_found_witness:
  "hashable (JStr ''nonexistent'')
   \<and> JStr ''nonexistent'' \<notin> set (registered_names sample_handlers)
   \<and> \<not> out_of_range (JInt 1) \<and> \<not> surrogates (JInt 1)
   \<and> \<not> has_surrogate (py_str (JStr ''nonexistent''))
   \<and> sse_call_tool json_ref sample_handlers
        (Inr (JObj [(''jsonrpc'', JStr ''2.0''), (''id'', JInt 1), (''method'', JStr ''tools/call''),
                    (''params'', JObj [(''name'', JStr ''nonexistent''), (''arguments'', JObj [])])]))
        sample_state =
      (\<lparr>status_code = 200,
        content = JObj [(''jsonrpc'', JStr ''2.0''),
                        (''id'', JInt 1),
                        (''error'', JObj [(''code'', JInt (- 32601)),
                                          (''message'', JStr ''Tool not found: nonexistent'')])]\<rparr>,
       sample_state)
   \<and> out_of_range (JFloat NaN)
   \<and> status_code (fst (sse_call_tool json_ref sample_handlers
        (Inr (JObj [(''jsonrpc'', JStr ''2.0''), (''id'', JFloat NaN), (''method'', JStr ''tools/call''),
                    (''params'', JObj [(''name'', JStr ''nonexistent''), (''arguments'', JObj [])])]))
        sample_state)) = 500"
proof -
  let ?ps = "[(''name'', JStr ''nonexistent''), (''arguments'', JObj [])]"
  let ?kvs = "[(''jsonrpc'', JStr ''2.0''), (''id'', JInt 1), (''method'', JStr ''tools/call''),
               (''params'', JObj ?ps)]"
  let ?kvs' = "[(''jsonrpc'', JStr ''2.0''), (''id'', JFloat NaN), (''method'', JStr ''tools/call''),
               (''params'', JObj ?ps)]"
  have h1: "map_of ?kvs ''jsonrpc'' = Some (JStr ''2.0'')" by simp
  have h2: "dict_get ?kvs ''method'' (JStr []) = JStr ''tools/call''" by (simp add: dict_get_def)
  have h3: "dict_get ?kvs ''params'' (JObj []) = JObj ?ps" by (simp add: dict_get_def)
  have h4: "hashable (dict_get ?ps ''name'' JNull)" by (simp add: dict_get_def)
  have h5: "dict_get ?ps ''name'' JNull \<notin> set (registered_names sample_handlers)"
    by (simp add: dict_get_def registered_names_def sample_handlers_eq)
  have k1: "map_of ?kvs' ''jsonrpc'' = Some (JStr ''2.0'')" by simp
  have k2: "dict_get ?kvs' ''method'' (JStr []) = JStr ''tools/call''" by (simp add: dict_get_def)
  have k3: "dict_get ?kvs' ''params'' (JObj []) = JObj ?ps" by (simp add: dict_get_def)
  have a: "sse_call_tool json_ref sample_handlers (Inr (JObj ?kvs)) sample_state =
      (\<lparr>status_code = 200,
        content = JObj [(''jsonrpc'', JStr ''2.0''),
                        (''id'', JInt 1),
                        (''error'', JObj [(''code'', JInt (- 32601)),
                                          (''message'', JStr ''Tool not found: nonexistent'')])]\<rparr>,
       sample_state)"
    using C1_tool_not_found [OF h1 h2 h3 h4 h5, of json_ref sample_state]
    by (simp add: dict_get_def)
  have b: "status_code (fst (sse_call_tool json_ref sample_handlers (Inr (JObj ?kvs')) sample_state))
      = 500"
    using C1_tool_not_found [OF k1 k2 k3 h4 h5, of json_ref sample_state]
    by (simp add: dict_get_def)
  from a b h4 h5 show ?thesis by (simp add: dict_get_def)
qed

text \<open>
  The claim as stated covers every \<^verbatim>\<open>params.name\<close> that is no registered tool name. A name
  that is a JSON array is none, and the test \<^verbatim>\<open>tool_name not in tool_handlers\<close> raises
  \<open>TypeError\<close> for it (a list is unhashable): the response has status 500 and code -32603.
\<close>

theorem C1_unhashable_name_counterexample:
  "JArr [] \<notin> set (registered_names sample_handlers)
   \<and> status_code (fst (sse_call_tool json_ref sample_handlers
        (Inr (JObj [(''jsonrpc'', JStr ''2.0''), (''id'', JInt 1), (''method'', JStr ''tools/call''),
                    (''params'', JObj [(''name'', JArr [])])]))
        sample_state)) = 500
   \<and> Option.bind (field (content (fst (sse_call_tool json_ref sample_handlers
        (Inr (JObj [(''jsonrpc'', JStr ''2.0''), (''id'', JInt 1), (''method'', JStr ''tools/call''),
                    (''params'', JObj [(''name'', JArr [])])]))
        sample_state))) ''error'') (\<lambda>e. field e ''code'') = Some (JInt (- 32603))"
  by (simp add: registered_names_def sample_handlers_eq sse_call_tool_def sse_call_tool_try_def
      is_jsonrpc2_def sse_jsonrpc_def sse_tools_call_def dict_get_def JSONResponse_def render_def
      quoted_def)
section \<open>An unknown tool on the REST surface\<close>



section \<open>The conversion of a handler's result\<close>

text \<open>
  Claim C3. For the sequence a handler returns, the conversion in \<^verbatim>\<open>call_tool\<close> gives: when
  the sequence is not empty and its first item has a text, the value parsed from that text
  if \<^verbatim>\<open>json.loads\<close> succeeds, and the text itself, unchanged, if it fails; when the
  sequence is empty or its first item has no text, the sequence itself. With the reference
  module, the text \<^verbatim>\<open>{"a":1}\<close> gives the object with member \<^verbatim>\<open>a\<close> equal to 1, and the text
  \<^verbatim>\<open>plain\<close> gives the string \<^verbatim>\<open>plain\<close>.
\<close>

theorem C3_result_normalization:
  \<open>(items result = TextContent t # rest \<longrightarrow> loads J t = Some v \<longrightarrow>
       call_tool_result_data J result = PyJson v)
   \<and> (items result = TextContent t # rest \<longrightarrow> loads J t = None \<longrightarrow>
       call_tool_result_data J result = PyJson (JStr t))
   \<and> (items result = [] \<longrightarrow> call_tool_result_data J result = PySeq result)
   \<and> (items result = OtherContent c # rest \<longrightarrow> call_tool_result_data J result = PySeq result)
   \<and> call_tool_result_data json_ref (PyList [TextContent ''{"a":1}'']) = PyJson (JObj [(''a'', JInt 1)])
   \<and> call_tool_result_data json_ref (PyList [TextContent ''plain'']) = PyJson (JStr ''plain'')\<close>
proof (intro conjI impI)
  assume "items result = TextContent t # rest" and "loads J t = Some v"
  then show "call_tool_result_data J result = PyJson v"
    by (simp add: call_tool_result_data_def)
next
  assume "items result = TextContent t # rest" and "loads J t = None"
  then show "call_tool_result_data J result = PyJson (JStr t)"
    by (simp add: call_tool_result_data_def)
next
  assume "items result = []"
  then show "call_tool_result_data J result = PySeq result"
    by (simp add: call_tool_result_data_def)
next
  assume "items result = OtherContent c # rest"
  then show "call_tool_result_data J result = PySeq result"
    by (simp add: call_tool_result_data_def)
next
  show \<open>call_tool_result_data json_ref (PyList [TextContent ''{"a":1}''])
      = PyJson (JObj [(''a'', JInt 1)])\<close>
    by (simp add: call_tool_result_data_def loads_object_text)
next
  show "call_tool_result_data json_ref (PyList [TextContent ''plain'']) = PyJson (JStr ''plain'')"
    by (simp add: call_tool_result_data_def loads_plain_text)
qed

theorem C3_result_normalization_witness:
  \<open>call_tool_result_data json_ref (PyList [TextContent ''[1, 2]'', OtherContent ''ImageContent''])
      = PyJson (JArr [JInt 1, JInt 2])
   \<and> call_tool_result_data json_ref (PyTuple [TextContent ''plain'']) = PyJson (JStr ''plain'')
   \<and> call_tool_result_data json_ref (PyList []) = PySeq (PyList [])
   \<and> call_tool_result_data json_ref (PyList [OtherContent ''ImageContent'', TextContent ''1''])
      = PySeq (PyList [OtherContent ''ImageContent'', TextContent ''1''])\<close>
proof -
  have a: "call_tool_result_data json_ref (PyList [TextContent ''[1, 2]'', OtherContent ''ImageContent''])
      = PyJson (JArr [JInt 1, JInt 2])"
    using C3_result_normalization [of "PyList [TextContent ''[1, 2]'', OtherContent ''ImageContent'']"
        "''[1, 2]''" "[OtherContent ''ImageContent'']" json_ref "JArr [JInt 1, JInt 2]"]
    by (simp add: loads_array_text)
  have b: "call_tool_result_data json_ref (PyTuple [TextContent ''plain'']) = PyJson (JStr ''plain'')"
    using C3_result_normalization [of "PyTuple [TextContent ''plain'']" "''plain''" "[]" json_ref]
    by (simp add: loads_plain_text)
  have c: "call_tool_result_data json_ref (PyList []) = PySeq (PyList [])"
    using C3_result_normalization [of "PyList []" _ _ json_ref] by simp
  have d: "call_tool_result_data json_ref (PyList [OtherContent ''ImageContent'', TextContent ''1''])
      = PySeq (PyList [OtherContent ''ImageContent'', TextContent ''1''])"
    using C3_result_normalization [of "PyList [OtherContent ''ImageContent'', TextContent ''1'']" _
        "[TextContent ''1'']" json_ref _ "''ImageContent''"]
    by simp
  from a b c d show ?thesis by blast
qed

section \<open>Unhandled exceptions on the JSON-RPC surface\<close>

text \<open>
  Claim C4 says that the response to a request whose dispatch raises has status 500 and a
  JSON-RPC error of code -32603 with the text of the exception, and that an id that was
  parsed from the body is included. The \<^verbatim>\<open>except\<close> branch of \<^verbatim>\<open>sse_call_tool\<close> builds its body
  from the exception alone. Here the request has id 7 and its handler raises: the id was
  read from the body, the response has status 500, code -32603 and the text of the
  exception, and no \<^verbatim>\<open>id\<close> member. The same envelope naming a tool that is not registered
  is answered with the id 7, as every answer from inside the \<^verbatim>\<open>try\<close> is. And when the text
  of the exception cannot be encoded (the fallback form naming a tool whose name is a lone
  surrogate, here the bytes of \<^verbatim>\<open>\ud800\<close>), the \<^verbatim>\<open>except\<close> branch raises in its turn and the
  server answers with its plain status 500, which is no JSON-RPC error at all.
\<close>

theorem C4_parsed_id_dropped:
  "dict_get [(''jsonrpc'', JStr ''2.0''), (''id'', JInt 7), (''method'', JStr ''tools/call''),
             (''params'', JObj [(''name'', JStr ''obsidian_delete_file''), (''arguments'', JObj [])])]
      ''id'' JNull = JInt 7
   \<and> sse_call_tool json_ref sample_handlers
        (Inr (JObj [(''jsonrpc'', JStr ''2.0''), (''id'', JInt 7), (''method'', JStr ''tools/call''),
                    (''params'', JObj [(''name'', JStr ''obsidian_delete_file''), (''arguments'', JObj [])])]))
        sample_state =
     (\<lparr>status_code = 500,
       content = JObj [(''jsonrpc'', JStr ''2.0''),
                       (''error'', JObj [(''code'', JInt (- 32603)),
                                         (''message'', JStr ''filepath argument missing in arguments'')])]\<rparr>,
      \<lparr>world = [''a.md'', ''b.md''], calls = [(''obsidian_delete_file'', JObj [])]\<rparr>)
   \<and> field (content (fst (sse_call_tool json_ref sample_handlers
        (Inr (JObj [(''jsonrpc'', JStr ''2.0''), (''id'', JInt 7), (''method'', JStr ''tools/call''),
                    (''params'', JObj [(''name'', JStr ''obsidian_delete_file''), (''arguments'', JObj [])])]))
        sample_state))) ''id'' = None
   \<and> field (content (fst (sse_call_tool json_ref sample_handlers
        (Inr (JObj [(''jsonrpc'', JStr ''2.0''), (''id'', JInt 7), (''method'', JStr ''tools/call''),
                    (''params'', JObj [(''name'', JStr ''nonexistent''), (''arguments'', JObj [])])]))
        sample_state))) ''id'' = Some (JInt 7)
   \<and> sse_call_tool json_ref sample_handlers
        (Inr (JObj [(''name'', JStr [CHR 0xED, CHR 0xA0, CHR 0x80])])) sample_state =
     (internal_server_error, sample_state)"
proof (intro conjI)
  show "dict_get [(''jsonrpc'', JStr ''2.0''), (''id'', JInt 7), (''method'', JStr ''tools/call''),
             (''params'', JObj [(''name'', JStr ''obsidian_delete_file''), (''arguments'', JObj [])])]
      ''id'' JNull = JInt 7"
    by (simp add: dict_get_def)
next
  show r: "sse_call_tool json_ref sample_handlers
        (Inr (JObj [(''jsonrpc'', JStr ''2.0''), (''id'', JInt 7), (''method'', JStr ''tools/call''),
                    (''params'', JObj [(''name'', JStr ''obsidian_delete_file''), (''arguments'', JObj [])])]))
        sample_state =
     (\<lparr>status_code = 500,
       content = JObj [(''jsonrpc'', JStr ''2.0''),
                       (''error'', JObj [(''code'', JInt (- 32603)),
                                         (''message'', JStr ''filepath argument missing in arguments'')])]\<rparr>,
      \<lparr>world = [''a.md'', ''b.md''], calls = [(''obsidian_delete_file'', JObj [])]\<rparr>)"
    by (simp add: sample_handlers_eq sse_call_tool_def sse_call_tool_try_def
        is_jsonrpc2_def sse_jsonrpc_def sse_tools_call_def dict_get_def JSONResponse_def render_def
        invoke_def delete_file_def sample_state_def)
  show "field (content (fst (sse_call_tool json_ref sample_handlers
        (Inr (JObj [(''jsonrpc'', JStr ''2.0''), (''id'', JInt 7), (''method'', JStr ''tools/call''),
                    (''params'', JObj [(''name'', JStr ''obsidian_delete_file''), (''arguments'', JObj [])])]))
        sample_state))) ''id'' = None"
    by (simp only: r) simp
next
  show "field (content (fst (sse_call_tool json_ref sample_handlers
        (Inr (JObj [(''jsonrpc'', JStr ''2.0''), (''id'', JInt 7), (''method'', JStr ''tools/call''),
                    (''params'', JObj [(''name'', JStr ''nonexistent''), (''arguments'', JObj [])])]))
        sample_state))) ''id'' = Some (JInt 7)"
    by (simp add: sample_handlers_eq sse_call_tool_def sse_call_tool_try_def
        is_jsonrpc2_def sse_jsonrpc_def sse_tools_call_def dict_get_def JSONResponse_def render_def)
next
  show "sse_call_tool json_ref sample_handlers
        (Inr (JObj [(''name'', JStr [CHR 0xED, CHR 0xA0, CHR 0x80])])) sample_state =
     (internal_server_error, sample_state)"
    by (simp add: sample_handlers_eq sse_call_tool_def sse_call_tool_try_def
        is_jsonrpc2_def sse_fallback_def dict_get_def JSONResponse_def render_def str_nat_404)
qed

section \<open>An unregistered tool in either request form\<close>

text \<open>
  Claim C5, as amended. For every request to \<^verbatim>\<open>POST /sse\<close> in the JSON-RPC 2.0 envelope
  form (method \<^verbatim>\<open>tools/call\<close>) that names an unregistered tool, and whose id and name can
  be encoded in the response (the id holds no \<^verbatim>\<open>NaN\<close> or infinite number and no lone
  surrogate, the name no lone surrogate), the response has status 200 and its body is a
  JSON-RPC 2.0 envelope with an error of code -32601, and no handler runs. For a request
  in the fallback form \<^verbatim>\<open>{name, arguments}\<close> that names an unregistered tool, the dispatch
  raises \<open>HTTPException\<close> with status 404 and detail \<^verbatim>\<open>Tool not found: \<close> followed by the
  name, and no handler runs.
\<close>

theorem C5_unregistered_tool_status:
  assumes "n \<notin> fst ` set reg"
  shows "(map_of kvs ''jsonrpc'' = Some (JStr ''2.0'') \<longrightarrow>
          dict_get kvs ''method'' (JStr []) = JStr ''tools/call'' \<longrightarrow>
          dict_get kvs ''params'' (JObj []) = JObj ps \<longrightarrow>
          dict_get ps ''name'' JNull = JStr n \<longrightarrow>
          \<not> out_of_range (dict_get kvs ''id'' JNull) \<longrightarrow>
          \<not> surrogates (dict_get kvs ''id'' JNull) \<longrightarrow>
          \<not> has_surrogate n \<longrightarrow>
            status_code (fst (sse_call_tool J reg (Inr (JObj kvs)) s)) = 200
            \<and> field (content (fst (sse_call_tool J reg (Inr (JObj kvs)) s))) ''jsonrpc''
                = Some (JStr ''2.0'')
            \<and> field (content (fst (sse_call_tool J reg (Inr (JObj kvs)) s))) ''error''
                = Some (JObj [(''code'', JInt (- 32601)),
                              (''message'', JStr (''Tool not found: '' @ n))])
            \<and> snd (sse_call_tool J reg (Inr (JObj kvs)) s) = s)
       \<and> (map_of kvs ''jsonrpc'' \<noteq> Some (JStr ''2.0'') \<longrightarrow>
          dict_get kvs ''name'' JNull = JStr n \<longrightarrow>
            sse_call_tool_try J reg (Inr (JObj kvs)) s
              = (Inl (HTTPException 404 (''Tool not found: '' @ n)), s))"
proof (intro conjI impI)
  let ?body = "JObj [(''jsonrpc'', JStr ''2.0''),
                    (''id'', dict_get kvs ''id'' JNull),
                    (''error'', JObj [(''code'', JInt (- 32601)),
                                      (''message'', JStr (''Tool not found: '' @ n))])]"
  assume a: "map_of kvs ''jsonrpc'' = Some (JStr ''2.0'')"
    "dict_get kvs ''method'' (JStr []) = JStr ''tools/call''"
    "dict_get kvs ''params'' (JObj []) = JObj ps"
    "dict_get ps ''name'' JNull = JStr n"
    and enc: "\<not> out_of_range (dict_get kvs ''id'' JNull)"
    "\<not> surrogates (dict_get kvs ''id'' JNull)" "\<not> has_surrogate n"
  have "sse_call_tool_try J reg (Inr (JObj kvs)) s =
      sse_tools_call J reg (JObj ps) (dict_get kvs ''id'' JNull) s"
    using a(1,2,3) by (simp add: sse_try_jsonrpc sse_jsonrpc_tools_call)
  also have "\<dots> = (JSONResponse 200 ?body, s)"
    using a(4) lookup_tool_unregistered [OF assms] by (simp add: sse_tools_call_def)
  also have "JSONResponse 200 ?body = Inr \<lparr>status_code = 200, content = ?body\<rparr>"
    using enc by (intro JSONResponse_ok) simp_all
  finally have r: "sse_call_tool J reg (Inr (JObj kvs)) s =
      (\<lparr>status_code = 200, content = ?body\<rparr>, s)"
    by (simp add: sse_call_tool_def)
  show "status_code (fst (sse_call_tool J reg (Inr (JObj kvs)) s)) = 200"
    by (simp add: r)
  show "field (content (fst (sse_call_tool J reg (Inr (JObj kvs)) s))) ''jsonrpc''
                = Some (JStr ''2.0'')"
    by (simp add: r)
  show "field (content (fst (sse_call_tool J reg (Inr (JObj kvs)) s))) ''error''
                = Some (JObj [(''code'', JInt (- 32601)),
                              (''message'', JStr (''Tool not found: '' @ n))])"
    by (simp add: r)
  show "snd (sse_call_tool J reg (Inr (JObj kvs)) s) = s"
    by (simp add: r)
next
  assume b: "map_of kvs ''jsonrpc'' \<noteq> Some (JStr ''2.0'')" "dict_get kvs ''name'' JNull = JStr n"
  then show "sse_call_tool_try J reg (Inr (JObj kvs)) s
              = (Inl (HTTPException 404 (''Tool not found: '' @ n)), s)"
    using lookup_tool_unregistered [OF assms]
    by (simp add: sse_try_fallback sse_fallback_def)
qed

theorem C5_unregistered_tool_status_witness:
  "''nonexistent'' \<notin> fst ` set sample_handlers
   \<and> \<not> out_of_range (JInt 1) \<and> \<not> surrogates (JInt 1) \<and> \<not> has_surrogate ''nonexistent''
   \<and> status_code (fst (sse_call_tool json_ref sample_handlers
        (Inr (JObj [(''jsonrpc'', JStr ''2.0''), (''id'', JInt 1), (''method'', JStr ''tools/call''),
                    (''params'', JObj [(''name'', JStr ''nonexistent''), (''arguments'', JObj [])])]))
        sample_state)) = 200
   \<and> sse_call_tool_try json_ref sample_handlers
        (Inr (JObj [(''name'', JStr ''nonexistent''), (''arguments'', JObj [])])) sample_state
      = (Inl (HTTPException 404 ''Tool not found: nonexistent''), sample_state)"
proof -
  let ?ps = "[(''name'', JStr ''nonexistent''), (''arguments'', JObj [])]"
  let ?kvs = "[(''jsonrpc'', JStr ''2.0''), (''id'', JInt 1), (''method'', JStr ''tools/call''),
               (''params'', JObj ?ps)]"
  have h: "''nonexistent'' \<notin> fst ` set sample_handlers" by (simp add: sample_handlers_eq)
  have h1: "map_of ?kvs ''jsonrpc'' = Some (JStr ''2.0'')" by simp
  have h2: "dict_get ?kvs ''method'' (JStr []) = JStr ''tools/call''" by (simp add: dict_get_def)
  have h3: "dict_get ?kvs ''params'' (JObj []) = JObj ?ps" by (simp add: dict_get_def)
  have h4: "dict_get ?ps ''name'' JNull = JStr ''nonexistent''" by (simp add: dict_get_def)
  have h5: "\<not> out_of_range (dict_get ?kvs ''id'' JNull)" by (simp add: dict_get_def)
  have h6: "\<not> surrogates (dict_get ?kvs ''id'' JNull)" by (simp add: dict_get_def)
  have h7: "\<not> has_surrogate ''nonexistent''" by simp
  have g1: "map_of ?ps ''jsonrpc'' \<noteq> Some (JStr ''2.0'')" by simp
  have a: "status_code (fst (sse_call_tool json_ref sample_handlers (Inr (JObj ?kvs)) sample_state)) = 200"
    using C5_unregistered_tool_status [OF h, of ?kvs ?ps json_ref sample_state] h1 h2 h3 h4 h5 h6 h7
    by blast
  have b: "sse_call_tool_try json_ref sample_handlers (Inr (JObj ?ps)) sample_state
      = (Inl (HTTPException 404 (''Tool not found: '' @ ''nonexistent'')), sample_state)"
    using C5_unregistered_tool_status [OF h, of ?ps _ json_ref sample_state] g1 h4
    by blast
  from h a b show ?thesis by simp
qed

text \<open>
  The claim as stated gives status 200 to the fallback form too. There the exception
  raised for the unregistered tool is caught by the \<^verbatim>\<open>except Exception\<close> of the endpoint:
  the response to a well-formed request has status 500 and code -32603.
\<close>

theorem C5_fallback_unregistered_counterexample:
  "''nonexistent'' \<notin> fst ` set sample_handlers
   \<and> status_code (fst (sse_call_tool json_ref sample_handlers
        (Inr (JObj [(''name'', JStr ''nonexistent''), (''arguments'', JObj [])])) sample_state)) = 500
   \<and> field (content (fst (sse_call_tool json_ref sample_handlers
        (Inr (JObj [(''name'', JStr ''nonexistent''), (''arguments'', JObj [])])) sample_state))) ''error''
      = Some (JObj [(''code'', JInt (- 32603)),
                    (''message'', JStr (str_exn (HTTPException 404 ''Tool not found: nonexistent'')))])"
  by (simp add: sample_handlers_eq sse_call_tool_def sse_call_tool_try_def is_jsonrpc2_def
      sse_fallback_def dict_get_def JSONResponse_def render_def str_nat_404)

section \<open>The id of a JSON-RPC response\<close>

text \<open>
  Claim C6. For every JSON-RPC 2.0 request to \<^verbatim>\<open>POST /sse\<close> that is answered without an
  exception leaving the dispatch, the \<^verbatim>\<open>id\<close> member of the response is the value
  \<^verbatim>\<open>body.get("id")\<close> of the request: the id of the request where it has one, \<^verbatim>\<open>null\<close>
  included. Every method but \<^verbatim>\<open>tools/call\<close> (\<^verbatim>\<open>tools/list\<close>, \<^verbatim>\<open>initialize\<close>, an unknown
  method) is answered so whenever its envelope can be encoded: the id, the name of the
  method and the descriptions of the tools hold no \<^verbatim>\<open>NaN\<close> or infinite number and no lone
  surrogate.
\<close>

theorem C6_id_echo:
  assumes "map_of kvs ''jsonrpc'' = Some (JStr ''2.0'')"
  shows "(sse_call_tool_try J reg (Inr (JObj kvs)) s = (Inr r, s') \<longrightarrow>
            sse_call_tool J reg (Inr (JObj kvs)) s = (r, s')
            \<and> field (content r) ''id'' = Some (dict_get kvs ''id'' JNull)
            \<and> (map_of kvs ''id'' = Some i \<longrightarrow> field (content r) ''id'' = Some i))
       \<and> (dict_get kvs ''method'' (JStr []) \<noteq> JStr ''tools/call'' \<longrightarrow>
          \<not> out_of_range (dict_get kvs ''id'' JNull) \<longrightarrow>
          \<not> surrogates (dict_get kvs ''id'' JNull) \<longrightarrow>
          \<not> has_surrogate (py_str (dict_get kvs ''method'' (JStr []))) \<longrightarrow>
          \<not> out_of_range (tools_list reg) \<longrightarrow>
          \<not> surrogates (tools_list reg) \<longrightarrow>
            (\<exists>r. sse_call_tool_try J reg (Inr (JObj kvs)) s = (Inr r, s)))"
proof (intro conjI impI)
  assume t: "sse_call_tool_try J reg (Inr (JObj kvs)) s = (Inr r, s')"
  then show "sse_call_tool J reg (Inr (JObj kvs)) s = (r, s')"
    by (simp add: sse_call_tool_def)
  from t assms have "sse_jsonrpc J reg (JObj kvs) s = (Inr r, s')"
    by (simp add: sse_try_jsonrpc)
  then show e: "field (content r) ''id'' = Some (dict_get kvs ''id'' JNull)"
    by (rule sse_jsonrpc_id)
  assume "map_of kvs ''id'' = Some i"
  with e show "field (content r) ''id'' = Some i" by (simp add: dict_get_def)
next
  assume m: "dict_get kvs ''method'' (JStr []) \<noteq> JStr ''tools/call''"
    and enc: "\<not> out_of_range (dict_get kvs ''id'' JNull)"
      "\<not> surrogates (dict_get kvs ''id'' JNull)"
      "\<not> has_surrogate (py_str (dict_get kvs ''method'' (JStr [])))"
      "\<not> out_of_range (tools_list reg)" "\<not> surrogates (tools_list reg)"
  from assms have t: "sse_call_tool_try J reg (Inr (JObj kvs)) s = sse_jsonrpc J reg (JObj kvs) s"
    by (rule sse_try_jsonrpc)
  show "\<exists>r. sse_call_tool_try J reg (Inr (JObj kvs)) s = (Inr r, s)"
    unfolding t using m enc by (simp add: sse_jsonrpc_def JSONResponse_ok)
qed

theorem C6_id_echo_witness:
  "sse_call_tool json_ref sample_handlers
      (Inr (JObj [(''jsonrpc'', JStr ''2.0''), (''id'', JNull), (''method'', JStr ''initialize'')]))
      sample_state =
     (\<lparr>status_code = 200,
       content = JObj [(''jsonrpc'', JStr ''2.0''),
                       (''id'', JNull),
                       (''result'', JObj
                          [(''protocolVersion'', JStr ''2024-11-05''),
                           (''capabilities'', JObj [(''tools'', JObj [])]),
                           (''serverInfo'', JObj [(''name'', JStr ''mcp-obsidian''),
                                                  (''version'', JStr ''0.2.1'')])])]\<rparr>,
      sample_state)
   \<and> field (content (fst (sse_call_tool json_ref sample_handlers
        (Inr (JObj [(''jsonrpc'', JStr ''2.0''), (''id'', JStr ''req-1''), (''method'', JStr ''ping'')]))
        sample_state))) ''id'' = Some (JStr ''req-1'')"
proof -
  let ?k1 = "[(''jsonrpc'', JStr ''2.0''), (''id'', JNull), (''method'', JStr ''initialize'')]"
  let ?r1 = "\<lparr>status_code = 200,
       content = JObj [(''jsonrpc'', JStr ''2.0''),
                       (''id'', JNull),
                       (''result'', JObj
                          [(''protocolVersion'', JStr ''2024-11-05''),
                           (''capabilities'', JObj [(''tools'', JObj [])]),
                           (''serverInfo'', JObj [(''name'', JStr ''mcp-obsidian''),
                                                  (''version'', JStr ''0.2.1'')])])]\<rparr>"
  let ?k2 = "[(''jsonrpc'', JStr ''2.0''), (''id'', JStr ''req-1''), (''method'', JStr ''ping'')]"
  let ?r2 = "\<lparr>status_code = 200,
       content = JObj [(''jsonrpc'', JStr ''2.0''),
                       (''id'', JStr ''req-1''),
                       (''error'', JObj [(''code'', JInt (- 32601)),
                                         (''message'', JStr ''Method not found: ping'')])]\<rparr>"
  have h1: "map_of ?k1 ''jsonrpc'' = Some (JStr ''2.0'')" by simp
  have t1: "sse_call_tool_try json_ref sample_handlers (Inr (JObj ?k1)) sample_state
      = (Inr ?r1, sample_state)"
    by (simp add: sse_call_tool_try_def is_jsonrpc2_def sse_jsonrpc_def dict_get_def JSONResponse_def
        render_def)
  have h2: "map_of ?k2 ''jsonrpc'' = Some (JStr ''2.0'')" by simp
  have t2: "sse_call_tool_try json_ref sample_handlers (Inr (JObj ?k2)) sample_state
      = (Inr ?r2, sample_state)"
    by (simp add: sse_call_tool_try_def is_jsonrpc2_def sse_jsonrpc_def dict_get_def JSONResponse_def
        render_def)
  have i2: "map_of ?k2 ''id'' = Some (JStr ''req-1'')" by simp
  have a: "sse_call_tool json_ref sample_handlers (Inr (JObj ?k1)) sample_state = (?r1, sample_state)"
    using C6_id_echo [OF h1, of json_ref sample_handlers sample_state ?r1 sample_state] t1
    by blast
  have "sse_call_tool json_ref sample_handlers (Inr (JObj ?k2)) sample_state = (?r2, sample_state)
      \<and> field (content ?r2) ''id'' = Some (JStr ''req-1'')"
    using C6_id_echo [OF h2, of json_ref sample_handlers sample_state ?r2 sample_state "JStr ''req-1''"]
      t2 i2
    by blast
  then have b: "field (content (fst (sse_call_tool json_ref sample_handlers (Inr (JObj ?k2))
      sample_state))) ''id'' = Some (JStr ''req-1'')"
    by simp
  from a b show ?thesis by blast
qed

section \<open>One conversion on both surfaces\<close>

text \<open>
  Claim C7 says that every request path of both surfaces that invokes a handler converts
  its result in the same way. The conversions of \<^verbatim>\<open>call_tool\<close> and of the \<^verbatim>\<open>tools/call\<close>
  branch of \<^verbatim>\<open>sse_call_tool\<close> are equal (\<open>result_data_same\<close>). The fallback path of
  \<^verbatim>\<open>sse_call_tool\<close> invokes the handler and converts nothing: for the same tool and
  arguments \<^verbatim>\<open>POST /tools/call\<close> answers with the text as result, and \<^verbatim>\<open>POST /sse\<close> in the
  fallback form runs the handler (the file is deleted in both) and then answers with status
  500, since the sequence of content items cannot be encoded.
\<close>

theorem C7_fallback_skips_normalization:
  "post_tools_call json_ref sample_handlers
      \<lparr>req_name = ''obsidian_delete_file'', arguments = [(''filepath'', JStr ''a.md'')]\<rparr> sample_state =
     (\<lparr>status_code = 200,
       content = JObj [(''success'', JBool True), (''tool'', JStr ''obsidian_delete_file''),
                       (''result'', JStr ''Successfully deleted a.md'')]\<rparr>,
      \<lparr>world = [''b.md''],
        calls = [(''obsidian_delete_file'', JObj [(''filepath'', JStr ''a.md'')])]\<rparr>)
   \<and> sse_call_tool json_ref sample_handlers
        (Inr (JObj [(''name'', JStr ''obsidian_delete_file''),
                    (''arguments'', JObj [(''filepath'', JStr ''a.md'')])])) sample_state =
     (\<lparr>status_code = 500,
       content = JObj [(''jsonrpc'', JStr ''2.0''),
                       (''error'', JObj [(''code'', JInt (- 32603)),
                                         (''message'', JStr ''Object of type TextContent is not JSON serializable'')])]\<rparr>,
      \<lparr>world = [''b.md''],
        calls = [(''obsidian_delete_file'', JObj [(''filepath'', JStr ''a.md'')])]\<rparr>)"
  by (simp add: sample_handlers_eq post_tools_call_def call_tool_def call_tool_try_def
      call_tool_result_data_def loads_deleted_text invoke_def delete_file_def sample_state_def
      sse_call_tool_def sse_call_tool_try_def is_jsonrpc2_def sse_fallback_def dict_get_def
      JSONResponse_def render_def)

section \<open>The content of a successful \<^verbatim>\<open>tools/call\<close>\<close>

text \<open>
  Claim C8. For a JSON-RPC 2.0 \<^verbatim>\<open>tools/call\<close> on \<^verbatim>\<open>POST /sse\<close> whose tool is registered and
  whose handler returns: every response that leaves the dispatch without an exception has
  status 200 and a result whose \<^verbatim>\<open>content\<close> is an array of exactly one item of type
  \<^verbatim>\<open>text\<close>; when the converted result is an object or an array, the text of the item of
  such a response is its \<^verbatim>\<open>json.dumps\<close> encoding; when it is a string, the text is that
  string itself. And the call does succeed, with that response, whenever the id of the
  request and the text can be encoded in it (no \<^verbatim>\<open>NaN\<close> or infinite number and no lone
  surrogate).
\<close>

theorem C8_tools_call_content:
  assumes "map_of kvs ''jsonrpc'' = Some (JStr ''2.0'')"
    and "dict_get kvs ''method'' (JStr []) = JStr ''tools/call''"
    and "dict_get kvs ''params'' (JObj []) = JObj ps"
    and "dict_get ps ''name'' JNull = JStr n"
    and "map_of reg n = Some h"
    and "run_tool h (dict_get ps ''arguments'' (JObj [])) (world s) = (Inr result, w)"
  shows "(sse_call_tool_try J reg (Inr (JObj kvs)) s = (Inr r, s') \<longrightarrow>
           status_code r = 200
           \<and> (\<exists>t. content r =
                 JObj [(''jsonrpc'', JStr ''2.0''),
                       (''id'', dict_get kvs ''id'' JNull),
                       (''result'', JObj [(''content'',
                          JArr [JObj [(''type'', JStr ''text''), (''text'', t)]])])]))
       \<and> (sse_result_data J result = PyJson (JObj members) \<longrightarrow>
           (sse_call_tool_try J reg (Inr (JObj kvs)) s = (Inr r, s') \<longrightarrow>
              content r =
                JObj [(''jsonrpc'', JStr ''2.0''),
                      (''id'', dict_get kvs ''id'' JNull),
                      (''result'', JObj [(''content'',
                         JArr [JObj [(''type'', JStr ''text''),
                                     (''text'', JStr (dumps J (JObj members)))]])])])
           \<and> (\<not> out_of_range (dict_get kvs ''id'' JNull) \<longrightarrow>
              \<not> surrogates (dict_get kvs ''id'' JNull) \<longrightarrow>
              \<not> has_surrogate (dumps J (JObj members)) \<longrightarrow>
              fst (sse_call_tool J reg (Inr (JObj kvs)) s) =
                \<lparr>status_code = 200,
                  content = JObj [(''jsonrpc'', JStr ''2.0''),
                                  (''id'', dict_get kvs ''id'' JNull),
                                  (''result'', JObj [(''content'',
                                     JArr [JObj [(''type'', JStr ''text''),
                                                 (''text'', JStr (dumps J (JObj members)))]])])]\<rparr>))
       \<and> (sse_result_data J result = PyJson (JArr elems) \<longrightarrow>
           (sse_call_tool_try J reg (Inr (JObj kvs)) s = (Inr r, s') \<longrightarrow>
              content r =
                JObj [(''jsonrpc'', JStr ''2.0''),
                      (''id'', dict_get kvs ''id'' JNull),
                      (''result'', JObj [(''content'',
                         JArr [JObj [(''type'', JStr ''text''),
                                     (''text'', JStr (dumps J (JArr elems)))]])])])
           \<and> (\<not> out_of_range (dict_get kvs ''id'' JNull) \<longrightarrow>
              \<not> surrogates (dict_get kvs ''id'' JNull) \<longrightarrow>
              \<not> has_surrogate (dumps J (JArr elems)) \<longrightarrow>
              fst (sse_call_tool J reg (Inr (JObj kvs)) s) =
                \<lparr>status_code = 200,
                  content = JObj [(''jsonrpc'', JStr ''2.0''),
                                  (''id'', dict_get kvs ''id'' JNull),
                                  (''result'', JObj [(''content'',
                                     JArr [JObj [(''type'', JStr ''text''),
                                                 (''text'', JStr (dumps J (JArr elems)))]])])]\<rparr>))
       \<and> (sse_result_data J result = PyJson (JStr str) \<longrightarrow>
           (sse_call_tool_try J reg (Inr (JObj kvs)) s = (Inr r, s') \<longrightarrow>
              content r =
                JObj [(''jsonrpc'', JStr ''2.0''),
                      (''id'', dict_get kvs ''id'' JNull),
                      (''result'', JObj [(''content'',
                         JArr [JObj [(''type'', JStr ''text''),
                                     (''text'', JStr str)]])])])
           \<and> (\<not> out_of_range (dict_get kvs ''id'' JNull) \<longrightarrow>
              \<not> surrogates (dict_get kvs ''id'' JNull) \<longrightarrow>
              \<not> has_surrogate (str) \<longrightarrow>
              fst (sse_call_tool J reg (Inr (JObj kvs)) s) =
                \<lparr>status_code = 200,
                  content = JObj [(''jsonrpc'', JStr ''2.0''),
                                  (''id'', dict_get kvs ''id'' JNull),
                                  (''result'', JObj [(''content'',
                                     JArr [JObj [(''type'', JStr ''text''),
                                                 (''text'', JStr str)]])])]\<rparr>))"
proof -
  let ?s1 = "\<lparr>world = w, calls = calls s @ [(name h, dict_get ps ''arguments'' (JObj []))]\<rparr>"
  have t: "sse_call_tool_try J reg (Inr (JObj kvs)) s =
      (case text_entry J (sse_result_data J result) of
         Inl e \<Rightarrow> (Inl e, ?s1)
       | Inr t \<Rightarrow>
           (JSONResponse 200
              (JObj [(''jsonrpc'', JStr ''2.0''),
                     (''id'', dict_get kvs ''id'' JNull),
                     (''result'', JObj [(''content'',
                        JArr [JObj [(''type'', JStr ''text''), (''text'', t)]])])]), ?s1))"
    using assms(1-5) invoke_eq [OF assms(6)]
    by (simp add: sse_try_jsonrpc sse_jsonrpc_tools_call sse_tools_call_registered)
  show ?thesis
  proof (intro conjI impI)
    assume a: "sse_call_tool_try J reg (Inr (JObj kvs)) s = (Inr r, s')"
    with t show "status_code r = 200"
      by (auto dest!: JSONResponse_Inr JSONResponse_Inr [OF sym] split: sum.splits)
    from a t show "\<exists>t. content r =
                 JObj [(''jsonrpc'', JStr ''2.0''),
                       (''id'', dict_get kvs ''id'' JNull),
                       (''result'', JObj [(''content'',
                          JArr [JObj [(''type'', JStr ''text''), (''text'', t)]])])]"
      by (auto dest!: JSONResponse_Inr JSONResponse_Inr [OF sym] split: sum.splits)
  next
    assume d: "sse_result_data J result = PyJson (JObj members)"
    {
      assume a: "sse_call_tool_try J reg (Inr (JObj kvs)) s = (Inr r, s')"
      from a t d show "content r =
                JObj [(''jsonrpc'', JStr ''2.0''),
                      (''id'', dict_get kvs ''id'' JNull),
                      (''result'', JObj [(''content'',
                         JArr [JObj [(''type'', JStr ''text''),
                                     (''text'', JStr (dumps J (JObj members)))]])])]"
        by (auto simp: text_entry_def dest!: JSONResponse_Inr JSONResponse_Inr [OF sym])
    }
    {
      assume enc: "\<not> out_of_range (dict_get kvs ''id'' JNull)"
        "\<not> surrogates (dict_get kvs ''id'' JNull)" "\<not> has_surrogate (dumps J (JObj members))"
      from t d enc show "fst (sse_call_tool J reg (Inr (JObj kvs)) s) =
                \<lparr>status_code = 200,
                  content = JObj [(''jsonrpc'', JStr ''2.0''),
                                  (''id'', dict_get kvs ''id'' JNull),
                                  (''result'', JObj [(''content'',
                                     JArr [JObj [(''type'', JStr ''text''),
                                                 (''text'', JStr (dumps J (JObj members)))]])])]\<rparr>"
        by (simp add: sse_call_tool_def text_entry_def JSONResponse_ok)
    }
  next
    assume d: "sse_result_data J result = PyJson (JArr elems)"
    {
      assume a: "sse_call_tool_try J reg (Inr (JObj kvs)) s = (Inr r, s')"
      from a t d show "content r =
                JObj [(''jsonrpc'', JStr ''2.0''),
                      (''id'', dict_get kvs ''id'' JNull),
                      (''result'', JObj [(''content'',
                         JArr [JObj [(''type'', JStr ''text''),
                                     (''text'', JStr (dumps J (JArr elems)))]])])]"
        by (auto simp: text_entry_def dest!: JSONResponse_Inr JSONResponse_Inr [OF sym])
    }
    {
      assume enc: "\<not> out_of_range (dict_get kvs ''id'' JNull)"
        "\<not> surrogates (dict_get kvs ''id'' JNull)" "\<not> has_surrogate (dumps J (JArr elems))"
      from t d enc show "fst (sse_call_tool J reg (Inr (JObj kvs)) s) =
                \<lparr>status_code = 200,
                  content = JObj [(''jsonrpc'', JStr ''2.0''),
                                  (''id'', dict_get kvs ''id'' JNull),
                                  (''result'', JObj [(''content'',
                                     JArr [JObj [(''type'', JStr ''text''),
                                                 (''text'', JStr (dumps J (JArr elems)))]])])]\<rparr>"
        by (simp add: sse_call_tool_def text_entry_def JSONResponse_ok)
    }
  next
    assume d: "sse_result_data J result = PyJson (JStr str)"
    {
      assume a: "sse_call_tool_try J reg (Inr (JObj kvs)) s = (Inr r, s')"
      from a t d show "content r =
                JObj [(''jsonrpc'', JStr ''2.0''),
                      (''id'', dict_get kvs ''id'' JNull),
                      (''result'', JObj [(''content'',
                         JArr [JObj [(''type'', JStr ''text''),
                                     (''text'', JStr str)]])])]"
        by (auto simp: text_entry_def dest!: JSONResponse_Inr JSONResponse_Inr [OF sym])
    }
    {
      assume enc: "\<not> out_of_range (dict_get kvs ''id'' JNull)"
        "\<not> surrogates (dict_get kvs ''id'' JNull)" "\<not> has_surrogate (str)"
      from t d enc show "fst (sse_call_tool J reg (Inr (JObj kvs)) s) =
                \<lparr>status_code = 200,
                  content = JObj [(''jsonrpc'', JStr ''2.0''),
                                  (''id'', dict_get kvs ''id'' JNull),
                                  (''result'', JObj [(''content'',
                                     JArr [JObj [(''type'', JStr ''text''),
                                                 (''text'', JStr str)]])])]\<rparr>"
        by (simp add: sse_call_tool_def text_entry_def JSONResponse_ok)
    }
  qed
qed

theorem C8_tools_call_content_witness:
  \<open>\<not> out_of_range (JInt 3) \<and> \<not> surrogates (JInt 3)
   \<and> \<not> has_surrogate (json_dumps (JArr [JStr ''a.md'', JStr ''b.md'']))
   \<and> \<not> has_surrogate ''Successfully deleted a.md''
   \<and> fst (sse_call_tool json_ref sample_handlers
        (Inr (JObj [(''jsonrpc'', JStr ''2.0''), (''id'', JInt 3), (''method'', JStr ''tools/call''),
                    (''params'', JObj [(''name'', JStr ''obsidian_list_files_in_vault'')])]))
        sample_state) =
     \<lparr>status_code = 200,
       content = JObj [(''jsonrpc'', JStr ''2.0''),
                       (''id'', JInt 3),
                       (''result'', JObj [(''content'',
                          JArr [JObj [(''type'', JStr ''text''),
                                      (''text'', JStr ''["a.md", "b.md"]'')]])])]\<rparr>
   \<and> fst (sse_call_tool json_ref sample_handlers
        (Inr (JObj [(''jsonrpc'', JStr ''2.0''), (''id'', JInt 4), (''method'', JStr ''tools/call''),
                    (''params'', JObj [(''name'', JStr ''obsidian_delete_file''),
                                       (''arguments'', JObj [(''filepath'', JStr ''a.md'')])])]))
        sample_state) =
     \<lparr>status_code = 200,
       content = JObj [(''jsonrpc'', JStr ''2.0''),
                       (''id'', JInt 4),
                       (''result'', JObj [(''content'',
                          JArr [JObj [(''type'', JStr ''text''),
                                      (''text'', JStr ''Successfully deleted a.md'')]])])]\<rparr>\<close>
proof -
  let ?p1 = "[(''name'', JStr ''obsidian_list_files_in_vault'')]"
  let ?k1 = "[(''jsonrpc'', JStr ''2.0''), (''id'', JInt 3), (''method'', JStr ''tools/call''),
              (''params'', JObj ?p1)]"
  let ?res1 = \<open>PyList [TextContent ''["a.md", "b.md"]'']\<close>
  have a1: "map_of ?k1 ''jsonrpc'' = Some (JStr ''2.0'')" by simp
  have a2: "dict_get ?k1 ''method'' (JStr []) = JStr ''tools/call''" by (simp add: dict_get_def)
  have a3: "dict_get ?k1 ''params'' (JObj []) = JObj ?p1" by (simp add: dict_get_def)
  have a4: "dict_get ?p1 ''name'' JNull = JStr ''obsidian_list_files_in_vault''"
    by (simp add: dict_get_def)
  have a5: "map_of sample_handlers ''obsidian_list_files_in_vault'' = Some list_files_in_vault"
    by (rule sample_lookup)
  have a6: "run_tool list_files_in_vault (dict_get ?p1 ''arguments'' (JObj [])) (world sample_state)
      = (Inr ?res1, [''a.md'', ''b.md''])"
    by (simp add: list_files_in_vault_def sample_state_def dumps_sample_files [simplified])
  have a7: "sse_result_data json_ref ?res1 = PyJson (JArr [JStr ''a.md'', JStr ''b.md''])"
    by (simp add: sse_result_data_def loads_sample_files)
  have a8: "\<not> out_of_range (dict_get ?k1 ''id'' JNull)" by (simp add: dict_get_def)
  have a9: "\<not> surrogates (dict_get ?k1 ''id'' JNull)" by (simp add: dict_get_def)
  have a10: "\<not> has_surrogate (dumps json_ref (JArr [JStr ''a.md'', JStr ''b.md'']))"
    by (simp add: dumps_sample_files [simplified])
  have x: "fst (sse_call_tool json_ref sample_handlers (Inr (JObj ?k1)) sample_state) =
     \<lparr>status_code = 200,
       content = JObj [(''jsonrpc'', JStr ''2.0''),
                       (''id'', dict_get ?k1 ''id'' JNull),
                       (''result'', JObj [(''content'',
                          JArr [JObj [(''type'', JStr ''text''),
                                      (''text'', JStr (dumps json_ref (JArr [JStr ''a.md'', JStr ''b.md''])))]])])]\<rparr>"
    using C8_tools_call_content [OF a1 a2 a3 a4 a5 a6, of json_ref _ _ _ "[JStr ''a.md'', JStr ''b.md'']"]
      a7 a8 a9 a10
    by blast
  let ?p2 = "[(''name'', JStr ''obsidian_delete_file''),
              (''arguments'', JObj [(''filepath'', JStr ''a.md'')])]"
  let ?k2 = "[(''jsonrpc'', JStr ''2.0''), (''id'', JInt 4), (''method'', JStr ''tools/call''),
              (''params'', JObj ?p2)]"
  let ?res2 = "PyList [TextContent ''Successfully deleted a.md'']"
  have b1: "map_of ?k2 ''jsonrpc'' = Some (JStr ''2.0'')" by simp
  have b2: "dict_get ?k2 ''method'' (JStr []) = JStr ''tools/call''" by (simp add: dict_get_def)
  have b3: "dict_get ?k2 ''params'' (JObj []) = JObj ?p2" by (simp add: dict_get_def)
  have b4: "dict_get ?p2 ''name'' JNull = JStr ''obsidian_delete_file''"
    by (simp add: dict_get_def)
  have b5: "map_of sample_handlers ''obsidian_delete_file'' = Some delete_file"
    by (rule sample_lookup)
  have b6: "run_tool delete_file (dict_get ?p2 ''arguments'' (JObj [])) (world sample_state)
      = (Inr ?res2, [''b.md''])"
    by (simp add: delete_file_def sample_state_def dict_get_def)
  have b7: "sse_result_data json_ref ?res2 = PyJson (JStr ''Successfully deleted a.md'')"
    by (simp add: sse_result_data_def loads_deleted_text)
  have b8: "\<not> out_of_range (dict_get ?k2 ''id'' JNull)" by (simp add: dict_get_def)
  have b9: "\<not> surrogates (dict_get ?k2 ''id'' JNull)" by (simp add: dict_get_def)
  have b10: "\<not> has_surrogate ''Successfully deleted a.md''" by simp
  have y: "fst (sse_call_tool json_ref sample_handlers (Inr (JObj ?k2)) sample_state) =
     \<lparr>status_code = 200,
       content = JObj [(''jsonrpc'', JStr ''2.0''),
                       (''id'', dict_get ?k2 ''id'' JNull),
                       (''result'', JObj [(''content'',
                          JArr [JObj [(''type'', JStr ''text''),
                                      (''text'', JStr ''Successfully deleted a.md'')]])])]\<rparr>"
    using C8_tools_call_content [OF b1 b2 b3 b4 b5 b6, of json_ref _ _ _ _ "''Successfully deleted a.md''"]
      b7 b8 b9 b10
    by blast
  from x y a10 show ?thesis
    by (simp add: dict_get_def dumps_sample_files [simplified])
qed

section \<open>The event stream\<close>

text \<open>
  Claim C9, as amended. For every stream of \<^verbatim>\<open>GET /sse\<close>: the first frame is the connection
  event \<^verbatim>\<open>{type: "connection", status: "connected"}\<close>, and it is emitted once; when a
  disconnect check of the loop finds the client gone, after \<open>k\<close> turns that slept, the
  frames are the connection event and \<open>k\<close> keep-alive comments, whatever would follow, and
  the stream is closed with no error event; an exception in the loop that is an instance
  of \<^verbatim>\<open>Exception\<close>, from the check or from the sleep, adds one error event, with which the
  stream ends; an exception that is none (the cancellation of the task at an \<^verbatim>\<open>await\<close>, the
  close of the generator at its \<^verbatim>\<open>yield\<close>) ends the stream with no error event; while none
  of these happens the stream stays open; and the endpoint leaves the state of the server,
  with its log of the handlers invoked, as it was.
\<close>

theorem C9_event_stream:
  "(\<exists>rest. fst (event_generator J ticks) = data_frame J connection_event # rest)
   \<and> (ticks = replicate k Slept @ Disconnected # later \<longrightarrow>
        event_generator J ticks =
          (data_frame J connection_event # replicate k keep_alive, True))
   \<and> (ticks = replicate k Slept @ CheckRaised e # later \<or> ticks = replicate k Slept @ SleepRaised e # later \<longrightarrow>
        event_generator J ticks =
          (data_frame J connection_event # replicate k keep_alive @ [data_frame J (error_event e)], True))
   \<and> (ticks = replicate k Slept @ Cancelled # later \<or> ticks = replicate k Slept @ Closed # later \<longrightarrow>
        event_generator J ticks =
          (data_frame J connection_event # replicate k keep_alive, True))
   \<and> (ticks = replicate k Slept \<longrightarrow>
        event_generator J ticks = (data_frame J connection_event # replicate k keep_alive, False))
   \<and> body_frames (fst (sse_endpoint J reg ticks s)) = fst (event_generator J ticks)
   \<and> finished (fst (sse_endpoint J reg ticks s)) = snd (event_generator J ticks)
   \<and> snd (sse_endpoint J reg ticks s) = s"
proof (intro conjI impI)
  show "\<exists>rest. fst (event_generator J ticks) = data_frame J connection_event # rest"
    by (cases "keep_alive_loop ticks"; cases "snd (keep_alive_loop ticks)")
      (auto simp: event_generator_def)
next
  assume "ticks = replicate k Slept @ Disconnected # later"
  then show "event_generator J ticks = (data_frame J connection_event # replicate k keep_alive, True)"
    by (simp add: event_generator_def keep_alive_loop_slept)
next
  assume "ticks = replicate k Slept @ CheckRaised e # later \<or> ticks = replicate k Slept @ SleepRaised e # later"
  then show "event_generator J ticks =
          (data_frame J connection_event # replicate k keep_alive @ [data_frame J (error_event e)], True)"
    by (auto simp: event_generator_def keep_alive_loop_slept)
next
  assume "ticks = replicate k Slept @ Cancelled # later \<or> ticks = replicate k Slept @ Closed # later"
  then show "event_generator J ticks = (data_frame J connection_event # replicate k keep_alive, True)"
    by (auto simp: event_generator_def keep_alive_loop_slept)
next
  assume "ticks = replicate k Slept"
  then have "ticks = replicate k Slept @ []" by simp
  then show "event_generator J ticks = (data_frame J connection_event # replicate k keep_alive, False)"
    by (simp only: event_generator_def keep_alive_loop_slept) simp
next
  show "body_frames (fst (sse_endpoint J reg ticks s)) = fst (event_generator J ticks)"
    by (simp add: sse_endpoint_def case_prod_beta)
  show "finished (fst (sse_endpoint J reg ticks s)) = snd (event_generator J ticks)"
    by (simp add: sse_endpoint_def case_prod_beta)
  show "snd (sse_endpoint J reg ticks s) = s"
    by (simp add: sse_endpoint_def case_prod_beta)
qed

theorem C9_event_stream_witness:
  \<open>body_frames (fst (sse_endpoint json_ref sample_handlers [Disconnected, Slept] sample_state)) =
      [''data: {"type": "connection", "status": "connected"}'' @ [CHR 0x0A, CHR 0x0A]]
   \<and> finished (fst (sse_endpoint json_ref sample_handlers [Disconnected, Slept] sample_state))
   \<and> snd (sse_endpoint json_ref sample_handlers [Disconnected, Slept] sample_state) = sample_state
   \<and> event_generator json_ref [Slept, Slept, Disconnected, Slept] =
      ([''data: {"type": "connection", "status": "connected"}'' @ [CHR 0x0A, CHR 0x0A],
        keep_alive, keep_alive], True)
   \<and> event_generator json_ref [Slept, CheckRaised (Error ''connection lost''), Slept] =
      ([''data: {"type": "connection", "status": "connected"}'' @ [CHR 0x0A, CHR 0x0A],
        keep_alive,
        ''data: {"type": "error", "message": "connection lost"}'' @ [CHR 0x0A, CHR 0x0A]], True)
   \<and> event_generator json_ref [Slept, Slept] =
      ([''data: {"type": "connection", "status": "connected"}'' @ [CHR 0x0A, CHR 0x0A],
        keep_alive, keep_alive], False)
   \<and> event_generator json_ref [Closed, Slept] =
      ([''data: {"type": "connection", "status": "connected"}'' @ [CHR 0x0A, CHR 0x0A]], True)\<close>
proof -
  have t1: "[Disconnected, Slept] = replicate 0 Slept @ Disconnected # [Slept]" by simp
  have t2: "[Slept, Slept, Disconnected, Slept] = replicate (Suc (Suc 0)) Slept @ Disconnected # [Slept]"
    by simp
  have t3: "[Slept, CheckRaised (Error ''connection lost''), Slept] =
      replicate (Suc 0) Slept @ CheckRaised (Error ''connection lost'') # [Slept]"
    by simp
  have t4: "[Slept, Slept] = replicate (Suc (Suc 0)) Slept" by simp
  have a: "event_generator json_ref [Disconnected, Slept] =
      (data_frame json_ref connection_event # replicate 0 keep_alive, True)"
    using C9_event_stream [of json_ref "[Disconnected, Slept]" 0 "[Slept]"] t1 by blast
  have b: "body_frames (fst (sse_endpoint json_ref sample_handlers [Disconnected, Slept] sample_state))
        = fst (event_generator json_ref [Disconnected, Slept])
      \<and> finished (fst (sse_endpoint json_ref sample_handlers [Disconnected, Slept] sample_state))
        = snd (event_generator json_ref [Disconnected, Slept])
      \<and> snd (sse_endpoint json_ref sample_handlers [Disconnected, Slept] sample_state) = sample_state"
    using C9_event_stream [of json_ref "[Disconnected, Slept]" _ _ _ sample_handlers sample_state]
    by blast
  have c: "event_generator json_ref [Slept, Slept, Disconnected, Slept] =
      (data_frame json_ref connection_event # replicate (Suc (Suc 0)) keep_alive, True)"
    using C9_event_stream [of json_ref "[Slept, Slept, Disconnected, Slept]" "Suc (Suc 0)" "[Slept]"] t2
    by blast
  have d: "event_generator json_ref [Slept, CheckRaised (Error ''connection lost''), Slept] =
      (data_frame json_ref connection_event # replicate (Suc 0) keep_alive
         @ [data_frame json_ref (error_event (Error ''connection lost''))], True)"
    using C9_event_stream [of json_ref "[Slept, CheckRaised (Error ''connection lost''), Slept]"
        "Suc 0" "[Slept]" "Error ''connection lost''"] t3
    by blast
  have e: "event_generator json_ref [Slept, Slept] =
      (data_frame json_ref connection_event # replicate (Suc (Suc 0)) keep_alive, False)"
    using C9_event_stream [of json_ref "[Slept, Slept]" "Suc (Suc 0)"] t4
    by blast
  have t5: "[Closed, Slept] = replicate 0 Slept @ Closed # [Slept]" by simp
  have f: "event_generator json_ref [Closed, Slept] =
      (data_frame json_ref connection_event # replicate 0 keep_alive, True)"
    using C9_event_stream [of json_ref "[Closed, Slept]" 0 "[Slept]"] t5 by blast
  from a b c d e f show ?thesis
    by (simp add: connection_frame error_frame)
qed

text \<open>
  The claim as stated gives one terminal error event to every exception inside the loop.
  The cancellation of the task while the loop sleeps, which is how the server ends the
  stream of a client that went away, raises \<^verbatim>\<open>asyncio.CancelledError\<close> at
  \<^verbatim>\<open>await asyncio.sleep(1)\<close>; \<^verbatim>\<open>except Exception\<close> does not catch it, and the stream ends
  after the connection event and one keep-alive comment with no error event.
\<close>

theorem C9_cancelled_no_error_event_counterexample:
  \<open>event_generator json_ref [Slept, Cancelled] =
      ([''data: {"type": "connection", "status": "connected"}'' @ [CHR 0x0A, CHR 0x0A],
        '': keep-alive'' @ [CHR 0x0A, CHR 0x0A]], True)\<close>
  by (simp add: event_generator_def connection_frame keep_alive_def)


section \<open>A text entry that is no string\<close>



end
